theory Spec2Isabelle
  imports Main "HOL-Library.Char_ord" "HOL-Library.List_Lexorder" "HOL-Library.Product_Lexorder"
begin

section \<open>Python values and exceptions\<close>

text \<open>
  The values that the modelled attributes of click's objects hold. A dictionary is an
  association list, read with \<open>map_of\<close>. A zero-argument callable (a callable
  default) is represented by the value its call returns.
\<close>

datatype pyval =
    VNone
  | VBool bool
  | VInt int
  | VStr string
  | VTuple "pyval list"
  | VList "pyval list"
  | VDict "(string \<times> pyval) list"
  | VCallable pyval

text \<open>
  The exceptions the modelled code raises or handles. \<open>ClickException\<close> carries its
  \<open>exit_code\<close>, \<open>IOError\<close> its \<open>errno\<close>, \<open>Exit\<close> the requested code. The module
  \<open>exceptions\<close> is not among the sources; the kinds are those of section 7 of the
  specification: the usage errors and file errors are \<open>ClickException\<close>s, while
  \<open>Abort\<close> and the exit request \<open>Exit\<close> are kinds of their own.
\<close>

datatype exn =
    ValueError
  | TypeError
  | RuntimeError
  | AttributeError
  | NameError
  | EOFError
  | KeyboardInterrupt
  | ClickException int
  | IOError int
  | Abort
  | Exit int

section \<open>Parameters\<close>

text \<open>
  The attributes of \<open>Parameter\<close> and of its subclasses \<open>Option\<close> and \<open>Argument\<close>,
  as their constructors set them. \<open>pid\<close> is the identity of the Python object:
  \<open>Parameter\<close> defines no \<open>__eq__\<close>, so \<open>==\<close> and \<open>list.index\<close> compare identities.
  The attributes from \<open>prompt\<close> on exist on an \<open>Option\<close> only. A callback is an
  opaque identifier. Of a parameter type (module \<open>types\<close>) the record keeps what
  the constructors read: \<open>is_composite\<close>, \<open>arity\<close> and whether it is a
  \<open>BoolParamType\<close>.
\<close>

datatype param_class = ClsParameter | ClsOption | ClsArgument

text \<open>
  \<open>CompletionItem\<close> (module \<open>shell_completion\<close>): the value, the type, the help, and
  the further keyword arguments, kept in \<open>_info\<close>. A keyword argument is a value or a
  function of one argument. A custom completion function of a parameter returns a
  list of strings or a list of completion items.
\<close>

datatype info = Info pyval | InfoFun "string \<Rightarrow> exn + pyval"

record completion_item =
  ci_value :: string
  ci_type :: string
  ci_help :: "string option"
  ci_info :: "(string \<times> info) list"

datatype custom_result = Strings "string list" | Items "completion_item list"

record param_type =
  type_name :: string
  is_composite :: bool
  arity :: int
  is_bool_type :: bool

datatype envvar_spec = EnvNone | EnvName string | EnvNames "string list"

record param =
  pid :: nat
  cls :: param_class
  name :: "string option"
  opts :: "string list"
  secondary_opts :: "string list"
  ptype :: param_type
  required :: bool
  callback :: "nat option"
  nargs :: int
  multiple :: bool
  expose_value :: bool
  pdefault :: pyval
  is_eager :: bool
  metavar :: "string option"
  envvar :: envvar_spec
  custom_shell_complete :: "(string \<Rightarrow> custom_result) option"
  prompt :: "string option"
  confirmation_prompt :: pyval
  prompt_required :: bool
  hide_input :: bool
  hidden :: bool
  flag_needs_value :: bool
  is_flag :: bool
  is_bool_flag :: bool
  flag_value :: pyval
  count_opt :: bool
  allow_from_autoenv :: bool
  help_text :: "string option"
  show_default :: pyval
  show_choices :: bool
  show_envvar :: bool

text \<open>
  A parameter with the attribute values that the constructors give when nothing is
  passed; the examples below are built from it.
\<close>

definition string_type :: param_type where
  "string_type = \<lparr>type_name = ''text'', is_composite = False, arity = 1, is_bool_type = False\<rparr>"

definition bool_type :: param_type where
  "bool_type = \<lparr>type_name = ''boolean'', is_composite = False, arity = 1, is_bool_type = True\<rparr>"

definition plain_param :: param where
  "plain_param =
     \<lparr>pid = 0, cls = ClsParameter, name = None, opts = [], secondary_opts = [],
      ptype = string_type, required = False, callback = None, nargs = 1, multiple = False,
      expose_value = True, pdefault = VNone, is_eager = False, metavar = None,
      envvar = EnvNone, custom_shell_complete = None, prompt = None,
      confirmation_prompt = VBool False, prompt_required = True, hide_input = False,
      hidden = False, flag_needs_value = False, is_flag = False, is_bool_flag = False,
      flag_value = VNone, count_opt = False, allow_from_autoenv = True, help_text = None,
      show_default = VNone, show_choices = True, show_envvar = False\<rparr>"

definition mk_param :: "nat \<Rightarrow> string \<Rightarrow> bool \<Rightarrow> param" where
  "mk_param i n e = plain_param\<lparr>pid := i, name := Some n, is_eager := e\<rparr>"

section \<open>Processing order of parameters: \<open>iter_params_for_processing\<close>\<close>

text \<open>\<open>list.index\<close>: the first position of the object, or no position (\<open>ValueError\<close>).\<close>

fun index_of :: "param list \<Rightarrow> param \<Rightarrow> nat option" where
  "index_of [] p = None"
| "index_of (q # qs) p =
     (if pid q = pid p then Some 0
      else (case index_of qs p of None \<Rightarrow> None | Some i \<Rightarrow> Some (Suc i)))"

text \<open>
  \<open>sort_key\<close> returns the tuple \<open>(0, param.name)\<close> for an eager parameter and
  \<open>(1, invocation_order.index(param))\<close> otherwise. The two shapes are embedded in
  one linearly ordered type: \<open>(0, name, 0)\<close> and \<open>(1, [], index)\<close>, compared
  lexicographically as Python compares tuples, strings by code point.
\<close>

type_synonym key = "nat \<times> string \<times> nat"

definition sort_key_of :: "param list \<Rightarrow> param \<Rightarrow> key" where
  "sort_key_of invocation_order p =
     (if is_eager p then (0, (case name p of None \<Rightarrow> [] | Some s \<Rightarrow> s), 0)
      else (1, [], (case index_of invocation_order p of None \<Rightarrow> 0 | Some i \<Rightarrow> i)))"

text \<open>
  \<open>sorted(declaration_order, key=sort_key)\<close> first computes every key, in order, so a
  non-eager parameter that is not in \<open>invocation_order\<close> raises \<open>ValueError\<close> before
  anything is compared. Comparing \<open>(0, None)\<close> with \<open>(0, 'x')\<close> raises \<open>TypeError\<close>,
  while two keys \<open>(0, None)\<close> are equal and are never compared with \<open><\<close>: a list
  whose eager parameters mix the two is taken to raise \<open>TypeError\<close>, since the
  insertion that the sort uses on short lists compares the keys of two such
  parameters. Otherwise the keys are totally ordered and the result is the stable
  sort.
\<close>

definition unmatched :: "param list \<Rightarrow> param \<Rightarrow> bool" where
  "unmatched invocation_order p \<longleftrightarrow> \<not> is_eager p \<and> index_of invocation_order p = None"

definition mixed_names :: "param list \<Rightarrow> bool" where
  "mixed_names ps \<longleftrightarrow>
     list_ex (\<lambda>p. is_eager p \<and> name p = None) ps \<and>
     list_ex (\<lambda>p. is_eager p \<and> name p \<noteq> None) ps"

definition iter_params_for_processing ::
  "param list \<Rightarrow> param list \<Rightarrow> exn + param list" where
  "iter_params_for_processing invocation_order declaration_order =
     (if list_ex (unmatched invocation_order) declaration_order then Inl ValueError
      else if mixed_names declaration_order then Inl TypeError
      else Inr (sort_key (sort_key_of invocation_order) declaration_order))"

text \<open>The order the specification describes, written from its words.\<close>

definition spec_processing_order :: "param list \<Rightarrow> param list \<Rightarrow> param list" where
  "spec_processing_order invocation_order declaration_order =
     filter is_eager declaration_order
     @ filter (\<lambda>p. \<not> is_eager p \<and> list_ex (\<lambda>q. pid q = pid p) declaration_order)
         invocation_order
     @ filter (\<lambda>p. \<not> is_eager p \<and> index_of invocation_order p = None) declaration_order"


text \<open>The two components of the sort key, each on its own.\<close>

definition name_key :: "param \<Rightarrow> string" where
  "name_key p = (case name p of None \<Rightarrow> [] | Some s \<Rightarrow> s)"

definition first_match :: "param list \<Rightarrow> param \<Rightarrow> nat" where
  "first_match invocation_order p = (case index_of invocation_order p of None \<Rightarrow> 0 | Some i \<Rightarrow> i)"

section \<open>Commands and contexts\<close>

text \<open>
  The attributes of \<open>BaseCommand\<close>, \<open>Command\<close> and \<open>MultiCommand\<close>. The attributes
  from \<open>invoke_without_command\<close> on are set by \<open>MultiCommand.__init__\<close> only: a plain
  \<open>Command\<close> object does not have them, and \<open>cmd_cls\<close> says which class the object has.
  A \<open>Group\<close> adds the mapping from names to its child commands.
\<close>

datatype command_class =
  ClsBaseCommand | ClsCommand | ClsMultiCommand | ClsGroup | ClsCommandCollection

definition is_MultiCommand :: "command_class \<Rightarrow> bool" where
  "is_MultiCommand c \<longleftrightarrow> c = ClsMultiCommand \<or> c = ClsGroup \<or> c = ClsCommandCollection"

record command =
  cmd_cls :: command_class
  cmd_name :: "string option"
  context_settings :: "(string \<times> pyval) list"
  cmd_callback :: "nat option"
  params :: "param list"
  options_metavar :: "string option"
  add_help_option :: bool
  no_args_is_help :: bool
  cmd_hidden :: bool
  invoke_without_command :: bool
  subcommand_metavar :: "string option"
  cmd_chain :: bool

record group = command +
  commands :: "string \<rightharpoonup> command"

text \<open>
  The attributes of \<open>Context\<close> that the modelled methods read or write. The parent
  link, \<open>obj\<close>, \<open>meta\<close> and the inherited display settings are left out. Close
  callbacks and entered resources are opaque identifiers.
\<close>

record py_context =
  ctx_id :: nat
  ctx_command :: command
  info_name :: "string option"
  ctx_params :: "string \<rightharpoonup> pyval"
  args :: "string list"
  protected_args :: "string list"
  default_map :: "(string \<times> pyval) list option"
  help_option_names :: pyval
  resilient_parsing :: bool
  depth :: int
  close_callbacks :: "nat list"
  exit_stack :: "nat list"

section \<open>Scope of a context: \<open>__enter__\<close>, \<open>__exit__\<close>, \<open>scope\<close>, \<open>close\<close>\<close>

text \<open>
  The methods mutate the context and have effects outside it: \<open>push_context\<close> and
  \<open>pop_context\<close> (module \<open>globals\<close>) work on the stack of current contexts, and \<open>close\<close>
  calls the registered callbacks and exits the entered resources. The state is the
  context, that stack, and the log of teardown effects in the order they happen.
\<close>

datatype event = Called nat | Exited nat

record world =
  ctx :: py_context
  ctx_stack :: "nat list"
  teardown_log :: "event list"

definition push_context :: "world \<Rightarrow> world" where
  "push_context w = w\<lparr>ctx_stack := ctx_id (ctx w) # ctx_stack w\<rparr>"

definition pop_context :: "world \<Rightarrow> world" where
  "pop_context w = w\<lparr>ctx_stack := tl (ctx_stack w)\<rparr>"

definition set_depth :: "int \<Rightarrow> world \<Rightarrow> world" where
  "set_depth d w = w\<lparr>ctx := (ctx w)\<lparr>depth := d\<rparr>\<rparr>"

text \<open>\<open>Context.call_on_close\<close> and \<open>Context.with_resource\<close> append to the registry.\<close>

definition call_on_close :: "nat \<Rightarrow> world \<Rightarrow> world" where
  "call_on_close f w = w\<lparr>ctx := (ctx w)\<lparr>close_callbacks := close_callbacks (ctx w) @ [f]\<rparr>\<rparr>"

definition with_resource :: "nat \<Rightarrow> world \<Rightarrow> world" where
  "with_resource r w = w\<lparr>ctx := (ctx w)\<lparr>exit_stack := exit_stack (ctx w) @ [r]\<rparr>\<rparr>"

text \<open>
  \<open>Context.close\<close>: the callbacks in reverse order of registration, the list cleared,
  then \<open>ExitStack.close\<close>, which exits the resources last-in first-out and empties the
  stack.
\<close>

definition close :: "world \<Rightarrow> world" where
  "close w =
     w\<lparr>teardown_log := teardown_log w @ map Called (rev (close_callbacks (ctx w)))
                   @ map Exited (rev (exit_stack (ctx w))),
       ctx := (ctx w)\<lparr>close_callbacks := [], exit_stack := []\<rparr>\<rparr>"

definition ctx_enter :: "world \<Rightarrow> world" where
  "ctx_enter w = push_context (set_depth (depth (ctx w) + 1) w)"

definition ctx_exit :: "world \<Rightarrow> world" where
  "ctx_exit w =
     (let w1 = set_depth (depth (ctx w) - 1) w;
          w2 = (if depth (ctx w1) = 0 then close w1 else w1)
      in pop_context w2)"

text \<open>
  \<open>Context.scope\<close> is a generator-based context manager: the test \<open>self._depth == 0\<close>
  is made on entry, and the \<open>finally\<close> block of the branch taken then runs on exit.
\<close>

definition scope_enter :: "world \<Rightarrow> bool \<times> world" where
  "scope_enter w =
     (if depth (ctx w) = 0 then (True, push_context (set_depth (depth (ctx w) + 1) w))
      else (False, set_depth (depth (ctx w) + 1) w))"

definition scope_exit :: "bool \<Rightarrow> bool \<Rightarrow> world \<Rightarrow> world" where
  "scope_exit cleanup outer w =
     (if outer then
        (let w1 = set_depth (depth (ctx w) - 1) w;
             w2 = (if cleanup then close w1 else w1)
         in pop_context w2)
      else set_depth (depth (ctx w) - 1) w)"

text \<open>
  Code that enters and exits one context re-entrantly: a \<open>with ctx:\<close> block, a
  \<open>with ctx.scope(cleanup):\<close> block, and registrations in their bodies.
\<close>

datatype stmt =
    CallOnClose nat
  | WithResource nat
  | With "stmt list"
  | Scope bool "stmt list"

fun exec :: "stmt \<Rightarrow> world \<Rightarrow> world"
  and exec_all :: "stmt list \<Rightarrow> world \<Rightarrow> world" where
  "exec (CallOnClose f) w = call_on_close f w"
| "exec (WithResource r) w = with_resource r w"
| "exec (With body) w = ctx_exit (exec_all body (ctx_enter w))"
| "exec (Scope cleanup body) w =
     (case scope_enter w of (outer, w1) \<Rightarrow> scope_exit cleanup outer (exec_all body w1))"
| "exec_all [] w = w"
| "exec_all (s # ss) w = exec_all ss (exec s w)"

text \<open>The callbacks and the resources that a piece of code registers, in order.\<close>

fun registered_callbacks :: "stmt \<Rightarrow> nat list"
  and registered_callbacks_all :: "stmt list \<Rightarrow> nat list" where
  "registered_callbacks (CallOnClose f) = [f]"
| "registered_callbacks (WithResource r) = []"
| "registered_callbacks (With body) = registered_callbacks_all body"
| "registered_callbacks (Scope cleanup body) = registered_callbacks_all body"
| "registered_callbacks_all [] = []"
| "registered_callbacks_all (s # ss) = registered_callbacks s @ registered_callbacks_all ss"

fun registered_resources :: "stmt \<Rightarrow> nat list"
  and registered_resources_all :: "stmt list \<Rightarrow> nat list" where
  "registered_resources (CallOnClose f) = []"
| "registered_resources (WithResource r) = [r]"
| "registered_resources (With body) = registered_resources_all body"
| "registered_resources (Scope cleanup body) = registered_resources_all body"
| "registered_resources_all [] = []"
| "registered_resources_all (s # ss) = registered_resources s @ registered_resources_all ss"

text \<open>The registry of the context extended by further registrations.\<close>

definition extend_registry :: "nat list \<Rightarrow> nat list \<Rightarrow> world \<Rightarrow> world" where
  "extend_registry fs rs w =
     w\<lparr>ctx := (ctx w)\<lparr>close_callbacks := close_callbacks (ctx w) @ fs,
                      exit_stack := exit_stack (ctx w) @ rs\<rparr>\<rparr>"

text \<open>The teardown effects of flushing a registry.\<close>

definition flush_events :: "nat list \<Rightarrow> nat list \<Rightarrow> event list" where
  "flush_events fs rs = map Called (rev fs) @ map Exited (rev rs)"

text \<open>A fresh context, as \<open>Context.__init__\<close> leaves the modelled attributes.\<close>

definition plain_command :: command where
  "plain_command =
     \<lparr>cmd_cls = ClsCommand, cmd_name = None, context_settings = [], cmd_callback = None,
      params = [], options_metavar = Some ''[OPTIONS]'', add_help_option = True,
      no_args_is_help = False, cmd_hidden = False, invoke_without_command = False,
      subcommand_metavar = None, cmd_chain = False\<rparr>"

definition new_context :: "command \<Rightarrow> py_context" where
  "new_context c =
     \<lparr>ctx_id = 0, ctx_command = c, info_name = None, ctx_params = Map.empty, args = [],
      protected_args = [], default_map = None, help_option_names = VList [VStr ''--help''],
      resilient_parsing = False, depth = 0, close_callbacks = [], exit_stack = []\<rparr>"

definition new_world :: world where
  "new_world = \<lparr>ctx = new_context plain_command, ctx_stack = [], teardown_log = []\<rparr>"

section \<open>Constructors: \<open>Parameter.__init__\<close>, \<open>Option.__init__\<close>, \<open>Argument.__init__\<close>\<close>

text \<open>
  The constructors call code that is not part of \<open>core.py\<close>: \<open>types.convert_type\<close>,
  \<open>types.IntRange\<close>, \<open>inspect.cleandoc\<close> and the string methods that turn a name
  into a prompt text. They also call \<open>self._parse_decls\<close>. All of these are
  parameters of the model.
\<close>

record externals =
  parse_decls :: "string list \<Rightarrow> bool \<Rightarrow> exn + (string option \<times> string list \<times> string list)"
  convert_type :: "param_type option \<Rightarrow> pyval \<Rightarrow> param_type"
  int_range_type :: param_type
  cleandoc :: "string \<Rightarrow> string"
  prompt_text_of :: "string \<Rightarrow> string"

text \<open>
  No class of \<open>core.py\<close> defines a method \<open>_parse_decls\<close>, and \<open>Parameter\<close> has no
  \<open>__getattr__\<close>: in this source the attribute lookup \<open>self._parse_decls\<close> raises
  \<open>AttributeError\<close>, whatever the declarations are.
\<close>

definition missing_parse_decls ::
  "string list \<Rightarrow> bool \<Rightarrow> exn + (string option \<times> string list \<times> string list)" where
  "missing_parse_decls decls expose = Inl AttributeError"

text \<open>Python's truth value of an object, \<open>callable\<close>, and \<open>_check_iter\<close>.\<close>

fun truthy :: "pyval \<Rightarrow> bool" where
  "truthy VNone = False"
| "truthy (VBool b) = b"
| "truthy (VInt n) = (n \<noteq> 0)"
| "truthy (VStr s) = (s \<noteq> [])"
| "truthy (VTuple xs) = (xs \<noteq> [])"
| "truthy (VList xs) = (xs \<noteq> [])"
| "truthy (VDict kvs) = (kvs \<noteq> [])"
| "truthy (VCallable v) = True"

fun callable :: "pyval \<Rightarrow> bool" where
  "callable (VCallable v) = True"
| "callable v = False"

fun check_iter :: "pyval \<Rightarrow> exn + pyval list" where
  "check_iter (VStr s) = Inl TypeError"
| "check_iter (VTuple xs) = Inr xs"
| "check_iter (VList xs) = Inr xs"
| "check_iter (VDict kvs) = Inr (map (\<lambda>kv. VStr (fst kv)) kvs)"
| "check_iter v = Inl TypeError"

text \<open>
  The checks of \<open>Parameter.__init__\<close> on a static default: the exception they raise,
  if any.
\<close>

definition check_default :: "bool \<Rightarrow> int \<Rightarrow> pyval \<Rightarrow> exn option" where
  "check_default mult n d =
     (let cd = (if callable d then VNone else d) in
      if cd = VNone then None
      else
        (case (if mult
               then (case check_iter cd of
                       Inl e \<Rightarrow> Inl ValueError
                     | Inr xs \<Rightarrow> Inr (case xs of [] \<Rightarrow> VNone | x # _ \<Rightarrow> x))
               else Inr cd) of
           Inl e \<Rightarrow> Some e
         | Inr cd1 \<Rightarrow>
             if n \<noteq> 1 \<and> cd1 \<noteq> VNone
             then (case check_iter cd1 of
                     Inl e \<Rightarrow> Some ValueError
                   | Inr ys \<Rightarrow> if n > 1 \<and> int (length ys) \<noteq> n then Some ValueError else None)
             else None))"

text \<open>
  \<open>Parameter.__init__\<close>. The first argument is the identity of the new object, the
  second its class. The attributes that only \<open>Option.__init__\<close> sets are taken from
  \<open>plain_param\<close> until it sets them.
\<close>

definition Parameter_init ::
  "externals \<Rightarrow> nat \<Rightarrow> param_class \<Rightarrow> string list \<Rightarrow> param_type option \<Rightarrow> bool \<Rightarrow> pyval
     \<Rightarrow> nat option \<Rightarrow> int option \<Rightarrow> bool \<Rightarrow> string option \<Rightarrow> bool \<Rightarrow> bool \<Rightarrow> envvar_spec
     \<Rightarrow> (string \<Rightarrow> custom_result) option \<Rightarrow> exn + param" where
  "Parameter_init ext i c decls ty req dflt cb n mult mv expose eager env sc =
     (case parse_decls ext decls expose of
        Inl e \<Rightarrow> Inl e
      | Inr (nm, os, sos) \<Rightarrow>
          (let t = convert_type ext ty dflt;
               n1 = (case n of None \<Rightarrow> (if is_composite t then arity t else 1) | Some k \<Rightarrow> k);
               p = plain_param\<lparr>pid := i, cls := c, name := nm, opts := os,
                     secondary_opts := sos, ptype := t, required := req, callback := cb,
                     nargs := n1, multiple := mult, expose_value := expose,
                     pdefault := dflt, is_eager := eager, metavar := mv, envvar := env,
                     custom_shell_complete := sc\<rparr>
           in if is_composite t \<and> n1 \<noteq> arity t then Inl ValueError
              else (case check_default mult n1 dflt of
                      Some e \<Rightarrow> Inl e
                    | None \<Rightarrow> Inr p)))"

text \<open>
  The keyword arguments of the constructors. \<open>a_default = None\<close> says that the keyword
  \<open>default\<close> was not passed, \<open>Some VNone\<close> that \<open>default=None\<close> was; the same for the
  other optional keywords. \<open>a_prompt\<close> is \<open>VBool True\<close>, \<open>VBool False\<close> or a text.
\<close>

record param_args =
  a_param_decls :: "string list"
  a_type :: "param_type option"
  a_required :: "bool option"
  a_default :: "pyval option"
  a_callback :: "nat option"
  a_nargs :: "int option"
  a_metavar :: "string option"
  a_expose_value :: bool
  a_is_eager :: bool
  a_envvar :: envvar_spec
  a_shell_complete :: "(string \<Rightarrow> custom_result) option"

record option_args = param_args +
  a_show_default :: pyval
  a_prompt :: pyval
  a_confirmation_prompt :: pyval
  a_prompt_required :: bool
  a_hide_input :: bool
  a_is_flag :: "bool option"
  a_flag_value :: pyval
  a_multiple :: bool
  a_count :: bool
  a_allow_from_autoenv :: bool
  a_help :: "string option"
  a_hidden :: bool
  a_show_choices :: bool
  a_show_envvar :: bool

text \<open>The last block of \<open>Option.__init__\<close>: the exception it raises, if any.\<close>

definition option_checks :: "param \<Rightarrow> exn option" where
  "option_checks p =
     (if nargs p = - 1 then Some TypeError
      else if (case prompt p of None \<Rightarrow> False | Some s \<Rightarrow> s \<noteq> []) \<and> is_flag p
              \<and> \<not> is_bool_flag p then Some TypeError
      else if \<not> is_bool_flag p \<and> secondary_opts p \<noteq> [] then Some TypeError
      else if is_bool_flag p \<and> hide_input p \<and> prompt p \<noteq> None then Some TypeError
      else if count_opt p then
        (if multiple p then Some TypeError
         else if is_flag p then Some TypeError
         else None)
      else None)"

text \<open>
  \<open>Option.__init__\<close>, statement by statement. The prompt text: \<open>prompt is True\<close>
  needs a name, \<open>prompt is False\<close> gives none, anything else is the text itself.
\<close>

definition option_prompt_text :: "externals \<Rightarrow> option_args \<Rightarrow> param \<Rightarrow> exn + string option" where
  "option_prompt_text ext a p0 =
     (if a_prompt a = VBool True
      then (case name p0 of
              None \<Rightarrow> Inl TypeError
            | Some nm \<Rightarrow> Inr (Some (prompt_text_of ext nm)))
      else if a_prompt a = VBool False then Inr None
      else (case a_prompt a of VStr s \<Rightarrow> Inr (Some s) | _ \<Rightarrow> Inr None))"

text \<open>
  \<open>_flag_needs_value\<close> before and after the inference of \<open>is_flag\<close>, and the inferred
  \<open>is_flag\<close>.
\<close>

definition prompt_needs_value :: "option_args \<Rightarrow> string option \<Rightarrow> bool" where
  "prompt_needs_value a prompt_text \<longleftrightarrow> prompt_text \<noteq> None \<and> \<not> a_prompt_required a"

definition option_flag_needs_value :: "option_args \<Rightarrow> string option \<Rightarrow> bool" where
  "option_flag_needs_value a prompt_text =
     (if a_is_flag a = Some False \<and> \<not> prompt_needs_value a prompt_text
      then a_flag_value a \<noteq> VNone
      else prompt_needs_value a prompt_text)"

definition option_is_flag :: "option_args \<Rightarrow> string option \<Rightarrow> param \<Rightarrow> bool" where
  "option_is_flag a prompt_text p0 =
     (case a_is_flag a of
        None \<Rightarrow>
          (if a_flag_value a \<noteq> VNone then True
           else if prompt_needs_value a prompt_text then False
           else secondary_opts p0 \<noteq> [])
      | Some f \<Rightarrow> f)"

text \<open>
  The default of a flag that is not required and got no \<open>default\<close>, and the
  \<open>flag_value\<close> that follows from the default.
\<close>

definition option_flag_default :: "option_args \<Rightarrow> bool \<Rightarrow> param \<Rightarrow> pyval" where
  "option_flag_default a flag p0 =
     (if flag \<and> a_default a = None \<and> \<not> required p0
      then (if a_multiple a then VTuple [] else VBool False)
      else pdefault p0)"

definition option_flag_value :: "option_args \<Rightarrow> pyval \<Rightarrow> pyval" where
  "option_flag_value a dflt =
     (if a_flag_value a = VNone then VBool (\<not> truthy dflt) else a_flag_value a)"

text \<open>
  The attributes as the constructor leaves them: the type of a flag, \<open>is_bool_flag\<close>,
  and the type and the default of a counting option.
\<close>

definition option_attrs ::
  "externals \<Rightarrow> option_args \<Rightarrow> param \<Rightarrow> string option \<Rightarrow> param" where
  "option_attrs ext a p0 prompt_text =
     (let flag = option_is_flag a prompt_text p0;
          dflt1 = option_flag_default a flag p0;
          fv = option_flag_value a dflt1;
          t1 = (if flag \<and> a_type a = None then convert_type ext None fv else ptype p0);
          t2 = (if a_count a \<and> a_type a = None then int_range_type ext else t1);
          dflt2 = (if a_count a \<and> a_default a = None then VInt 0 else dflt1)
      in p0\<lparr>prompt := prompt_text,
            confirmation_prompt := a_confirmation_prompt a,
            prompt_required := a_prompt_required a,
            hide_input := a_hide_input a, hidden := a_hidden a,
            flag_needs_value := option_flag_needs_value a prompt_text,
            pdefault := dflt2, ptype := t2,
            is_flag := flag, is_bool_flag := (flag \<and> is_bool_type t1), flag_value := fv,
            count_opt := a_count a,
            allow_from_autoenv := a_allow_from_autoenv a,
            help_text := (case a_help a of
                            None \<Rightarrow> None
                          | Some h \<Rightarrow> if h \<noteq> [] then Some (cleandoc ext h) else Some h),
            show_default := a_show_default a,
            show_choices := a_show_choices a,
            show_envvar := a_show_envvar a\<rparr>)"

definition Option_init :: "externals \<Rightarrow> nat \<Rightarrow> option_args \<Rightarrow> exn + param" where
  "Option_init ext i a =
     (case Parameter_init ext i ClsOption (a_param_decls a) (a_type a)
             (case a_required a of None \<Rightarrow> False | Some r \<Rightarrow> r)
             (case a_default a of None \<Rightarrow> VNone | Some d \<Rightarrow> d)
             (a_callback a) (a_nargs a) (a_multiple a) (a_metavar a) (a_expose_value a)
             (a_is_eager a) (a_envvar a) (a_shell_complete a) of
        Inl e \<Rightarrow> Inl e
      | Inr p0 \<Rightarrow>
          (case option_prompt_text ext a p0 of
             Inl e \<Rightarrow> Inl e
           | Inr prompt_text \<Rightarrow>
               (case option_checks (option_attrs ext a p0 prompt_text) of
                  Some e \<Rightarrow> Inl e
                | None \<Rightarrow> Inr (option_attrs ext a p0 prompt_text))))"

text \<open>
  \<open>Argument.__init__\<close>. \<open>a_multiple_given\<close> says that the keyword \<open>multiple\<close> was
  passed, which the constructor refuses.
\<close>

definition Argument_init :: "externals \<Rightarrow> nat \<Rightarrow> param_args \<Rightarrow> bool \<Rightarrow> exn + param" where
  "Argument_init ext i a a_multiple_given =
     (let req = (case a_required a of
                   Some r \<Rightarrow> r
                 | None \<Rightarrow>
                     (if a_default a \<noteq> None \<and> a_default a \<noteq> Some VNone then False
                      else (case a_nargs a of None \<Rightarrow> True | Some k \<Rightarrow> k > 0)))
      in if a_multiple_given then Inl TypeError
         else (case Parameter_init ext i ClsArgument (a_param_decls a) (a_type a) req
                      (case a_default a of None \<Rightarrow> VNone | Some d \<Rightarrow> d)
                      (a_callback a) (a_nargs a) False (a_metavar a) (a_expose_value a)
                      (a_is_eager a) (a_envvar a) (a_shell_complete a) of
                 Inl e \<Rightarrow> Inl e
               | Inr p \<Rightarrow>
                   if pdefault p \<noteq> VNone \<and> nargs p = - 1 then Inl TypeError else Inr p))"

section \<open>Defaults: \<open>Context.lookup_default\<close> and \<open>Parameter.get_default\<close>\<close>

text \<open>Calling a zero-argument callable returns the value it stands for.\<close>

fun call_value :: "pyval \<Rightarrow> pyval" where
  "call_value (VCallable v) = v"
| "call_value v = v"

text \<open>
  \<open>Context.lookup_default(name, call)\<close>. The name of a parameter may be \<open>None\<close>, which
  is no key of a default map.
\<close>

definition lookup_default :: "py_context \<Rightarrow> string option \<Rightarrow> bool \<Rightarrow> pyval" where
  "lookup_default c nm call =
     (case default_map c of
        None \<Rightarrow> VNone
      | Some m \<Rightarrow>
          (let v = (case nm of
                      None \<Rightarrow> VNone
                    | Some n \<Rightarrow> (case map_of m n of None \<Rightarrow> VNone | Some x \<Rightarrow> x))
           in if call \<and> callable v then call_value v else v))"

text \<open>
  \<open>Parameter.get_default(ctx, call)\<close>. It calls \<open>ctx.lookup_default(self.name)\<close> with
  the default \<open>call=True\<close>, whatever its own \<open>call\<close> is.
\<close>

definition get_default :: "param \<Rightarrow> py_context option \<Rightarrow> bool \<Rightarrow> pyval" where
  "get_default p c call =
     (let v0 = (case c of None \<Rightarrow> VNone | Some cx \<Rightarrow> lookup_default cx (name p) True);
          v = (if v0 = VNone then pdefault p else v0)
      in if call \<and> callable v then call_value v else v)"

section \<open>Matching positional arguments\<close>

text \<open>
  Modelled from the spec: the parser (module \<open>parser\<close>) is not among the sources.
  Section 4.2: positional tokens are matched against the positional parameters in
  declaration order; an argument with \<open>nargs = -1\<close> takes all remaining tokens but
  the trailing ones reserved for the required fixed-arity arguments that follow it.
  An argument is given by its \<open>nargs\<close> and whether it is required; the result is the
  tokens of each argument, in declaration order, and the leftover tokens.
\<close>

fun reserved_after :: "(int \<times> bool) list \<Rightarrow> nat" where
  "reserved_after [] = 0"
| "reserved_after ((n, req) # rest) = (if req \<and> n > 0 then nat n else 0) + reserved_after rest"

fun unpack_args :: "string list \<Rightarrow> (int \<times> bool) list \<Rightarrow> string list list \<times> string list" where
  "unpack_args toks [] = ([], toks)"
| "unpack_args toks ((n, req) # rest) =
     (let k = (if n < 0 then length toks - reserved_after rest else nat n)
      in case unpack_args (drop k toks) rest of
           (vals, left) \<Rightarrow> (take k toks # vals, left))"

section \<open>Multi commands and groups\<close>

text \<open>
  \<open>Command.__init__\<close> and \<open>MultiCommand.__init__\<close>. The first argument is the class
  of the object under construction. An absent \<open>context_settings\<close> or \<open>params\<close> is the
  empty dictionary or list.
\<close>

definition Command_init ::
  "command_class \<Rightarrow> string option \<Rightarrow> (string \<times> pyval) list option \<Rightarrow> nat option
     \<Rightarrow> param list option \<Rightarrow> string option \<Rightarrow> bool \<Rightarrow> bool \<Rightarrow> bool \<Rightarrow> command" where
  "Command_init c nm settings cb ps om aho nah hid =
     \<lparr>cmd_cls = c, cmd_name = nm,
      context_settings = (case settings of None \<Rightarrow> [] | Some s \<Rightarrow> s),
      cmd_callback = cb,
      params = (case ps of None \<Rightarrow> [] | Some l \<Rightarrow> l),
      options_metavar = om, add_help_option = aho, no_args_is_help = nah,
      cmd_hidden = hid, invoke_without_command = False, subcommand_metavar = None,
      cmd_chain = False\<rparr>"

definition is_optional_argument :: "param \<Rightarrow> bool" where
  "is_optional_argument p \<longleftrightarrow> cls p = ClsArgument \<and> \<not> required p"

definition MultiCommand_init ::
  "command_class \<Rightarrow> string option \<Rightarrow> bool \<Rightarrow> bool option \<Rightarrow> string option \<Rightarrow> bool
     \<Rightarrow> (string \<times> pyval) list option \<Rightarrow> nat option \<Rightarrow> param list option
     \<Rightarrow> string option \<Rightarrow> bool \<Rightarrow> bool \<Rightarrow> exn + command" where
  "MultiCommand_init c nm iwc nah sm ch settings cb ps om aho hid =
     (let c0 = Command_init c nm settings cb ps om aho False hid;
          c1 = c0\<lparr>no_args_is_help := (case nah of None \<Rightarrow> \<not> iwc | Some b \<Rightarrow> b),
                  invoke_without_command := iwc,
                  subcommand_metavar :=
                    (case sm of
                       None \<Rightarrow> if ch then Some ''COMMAND1 [ARGS]... [COMMAND2 [ARGS]...]...''
                               else Some ''COMMAND [ARGS]...''
                     | Some m \<Rightarrow> Some m),
                  cmd_chain := ch\<rparr>
      in if ch \<and> list_ex is_optional_argument (params c1) then Inl RuntimeError
         else Inr c1)"




text \<open>
  \<open>Group.add_command(cmd, name)\<close>: \<open>name or cmd.name\<close> takes the command's name when
  \<open>name\<close> is \<open>None\<close> or empty, and a missing name raises \<open>TypeError\<close>. Then the
  method calls the global function \<open>_check_multicommand\<close> and enters the command
  under the name. The argument \<open>chk\<close> is what looking that name up gives: the
  function, which returns the exception it raises, if any, or the exception of the
  lookup.
\<close>

definition add_command ::
  "exn + (group \<Rightarrow> string \<Rightarrow> command \<Rightarrow> bool \<Rightarrow> exn option) \<Rightarrow> group \<Rightarrow> command
     \<Rightarrow> string option \<Rightarrow> exn + group" where
  "add_command chk g cmd nm =
     (case (case nm of
              None \<Rightarrow> cmd_name cmd
            | Some n \<Rightarrow> if n \<noteq> [] then Some n else cmd_name cmd) of
        None \<Rightarrow> Inl TypeError
      | Some n \<Rightarrow>
          (case chk of
             Inl e \<Rightarrow> Inl e
           | Inr check \<Rightarrow>
               (case check g n cmd True of
                  Some e \<Rightarrow> Inl e
                | None \<Rightarrow> Inr (g\<lparr>commands := (commands g)(n \<mapsto> cmd)\<rparr>))))"

text \<open>
  \<open>core.py\<close> neither defines nor imports a name \<open>_check_multicommand\<close>: in this
  source the lookup raises \<open>NameError\<close>.
\<close>

definition missing_check_multicommand ::
  "exn + (group \<Rightarrow> string \<Rightarrow> command \<Rightarrow> bool \<Rightarrow> exn option)" where
  "missing_check_multicommand = Inl NameError"

section \<open>The entry point: \<open>BaseCommand.main\<close>\<close>

text \<open>
  What \<open>main\<close> writes to standard error: the lines it echoes itself, and the message
  that \<open>ClickException.show\<close> prints for an exception with the given exit code.
\<close>

datatype echoed = Echo string | Show int

text \<open>
  \<open>sys.exit(code)\<close> raises \<open>SystemExit(code)\<close>, which ends the process with that code
  when nothing catches it; the constant \<open>errno.EPIPE\<close>.
\<close>

datatype ending = Returns pyval | Raises exn | SystemExit int

definition EPIPE :: int where
  "EPIPE = 32"

text \<open>
  Binding the arguments of the call \<open>self._main_shell_completion(ctx, extra,
  prog_name, complete_var)\<close>: the method is declared with the parameters
  \<open>(self, ctx_args, prog_name, complete_var=None)\<close>, so it accepts two or three
  positional arguments after \<open>self\<close>, and a call with another number raises
  \<open>TypeError\<close> before the body runs. The body is the argument \<open>completion\<close>: the
  exception it raises or the \<open>SystemExit\<close> it ends with, if any.
\<close>

definition main_shell_completion_call :: "nat \<Rightarrow> ending option \<Rightarrow> ending option" where
  "main_shell_completion_call positional completion =
     (if positional < 2 \<or> 3 < positional then Some (Raises TypeError) else completion)"

text \<open>
  The body of the inner \<open>try\<close>. \<open>made\<close> is the outcome of \<open>self.make_context\<close>,
  \<open>invoked\<close> the outcome of \<open>self.invoke(ctx)\<close>; the call of
  \<open>_main_shell_completion\<close> passes four positional arguments. After a successful
  \<open>invoke\<close> in standalone mode, \<open>ctx.exit()\<close> raises \<open>Exit(0)\<close>. The \<open>with\<close>
  block enters and exits the context around this; its teardown does not change how
  the call ends.
\<close>

definition main_body ::
  "bool \<Rightarrow> exn + py_context \<Rightarrow> (py_context \<Rightarrow> exn + pyval) \<Rightarrow> ending option
     \<Rightarrow> ending" where
  "main_body standalone_mode made invoked completion =
     (case made of
        Inl e \<Rightarrow> Raises e
      | Inr c \<Rightarrow>
          (case main_shell_completion_call 4 completion of
             Some t \<Rightarrow> t
           | None \<Rightarrow>
               (case invoked c of
                  Inl e \<Rightarrow> Raises e
                | Inr rv \<Rightarrow> if \<not> standalone_mode then Returns rv else Raises (Exit 0))))"

text \<open>
  \<open>utils.echo(message, file=sys.stderr)\<close> with the default \<open>nl=True\<close>: the newline is
  appended with \<open>message + ...\<close>, which raises \<open>TypeError\<close> when \<open>message\<close> is
  \<open>None\<close>; a text is written with its newline. The result is what was written.
\<close>

definition echo :: "string option \<Rightarrow> exn + echoed list" where
  "echo message = (case message of None \<Rightarrow> Inl TypeError | Some m \<Rightarrow> Inr [Echo m])"

text \<open>
  The handlers of \<open>main\<close>, inner \<open>try\<close> first: for \<open>EOFError\<close> and
  \<open>KeyboardInterrupt\<close>, \<open>echo(file=sys.stderr)\<close> and then \<open>raise Abort()\<close>; a
  \<open>ClickException\<close> is shown and ends the process with its exit code; an \<open>IOError\<close>
  with \<open>EPIPE\<close> ends it with 1; for \<open>Abort\<close>, \<open>echo("Aborted!", file=sys.stderr)\<close>
  and exit code 1. An exception raised inside a handler leaves \<open>main\<close>, unless it is
  an \<open>Abort\<close> raised by an inner handler. No handler catches \<open>Exit\<close>. The result is
  how the call ends and what it wrote to standard error.
\<close>

definition handle_abort :: "bool \<Rightarrow> echoed list \<Rightarrow> ending \<times> echoed list" where
  "handle_abort standalone_mode err =
     (if \<not> standalone_mode then (Raises Abort, err)
      else (case echo (Some ''Aborted!'') of
              Inl e \<Rightarrow> (Raises e, err)
            | Inr out \<Rightarrow> (SystemExit 1, err @ out)))"

definition handle_interrupt :: "bool \<Rightarrow> ending \<times> echoed list" where
  "handle_interrupt standalone_mode =
     (case echo None of
        Inl e \<Rightarrow> (Raises e, [])
      | Inr out \<Rightarrow> handle_abort standalone_mode out)"

definition main ::
  "bool \<Rightarrow> exn + py_context \<Rightarrow> (py_context \<Rightarrow> exn + pyval) \<Rightarrow> ending option
     \<Rightarrow> ending \<times> echoed list" where
  "main standalone_mode made invoked completion =
     (case main_body standalone_mode made invoked completion of
        Raises EOFError \<Rightarrow> handle_interrupt standalone_mode
      | Raises KeyboardInterrupt \<Rightarrow> handle_interrupt standalone_mode
      | Raises (ClickException code) \<Rightarrow>
          (if \<not> standalone_mode then (Raises (ClickException code), [])
           else (SystemExit code, [Show code]))
      | Raises (IOError errno) \<Rightarrow>
          (if errno = EPIPE then (SystemExit 1, []) else (Raises (IOError errno), []))
      | Raises Abort \<Rightarrow> handle_abort standalone_mode []
      | t \<Rightarrow> (t, []))"

section \<open>Building contexts: \<open>Context.__init__\<close> and \<open>BaseCommand.make_context\<close>\<close>

text \<open>
  \<open>Context.__init__\<close>, for the modelled attributes. The first argument is the identity
  of the new object, \<open>extra\<close> the keyword arguments, of which \<open>default_map\<close>,
  \<open>help_option_names\<close> and \<open>resilient_parsing\<close> are modelled; the properties below
  pass none but these. A default map is a dictionary whose values for command names
  are dictionaries again. The default map is the one passed, else the parent's entry
  for \<open>info_name\<close>; the help option names are those passed, whatever value that is,
  else the parent's, else the list with \<open>--help\<close>; \<open>resilient_parsing\<close> is what was
  passed and \<open>False\<close> otherwise: it is not inherited.
\<close>

definition inherited_help_option_names :: "py_context option \<Rightarrow> pyval" where
  "inherited_help_option_names parent =
     (case parent of None \<Rightarrow> VList [VStr ''--help''] | Some par \<Rightarrow> help_option_names par)"

definition Context_init ::
  "nat \<Rightarrow> command \<Rightarrow> py_context option \<Rightarrow> string option \<Rightarrow> (string \<times> pyval) list
     \<Rightarrow> py_context" where
  "Context_init i cmd parent nm extra =
     \<lparr>ctx_id = i, ctx_command = cmd, info_name = nm, ctx_params = Map.empty, args = [],
      protected_args = [],
      default_map =
        (case map_of extra ''default_map'' of
           Some (VDict m) \<Rightarrow> Some m
         | _ \<Rightarrow>
             (case nm of
                None \<Rightarrow> None
              | Some n \<Rightarrow>
                  (case parent of
                     None \<Rightarrow> None
                   | Some par \<Rightarrow>
                       (case default_map par of
                          None \<Rightarrow> None
                        | Some pm \<Rightarrow>
                            (case map_of pm n of Some (VDict m) \<Rightarrow> Some m | _ \<Rightarrow> None))))),
      help_option_names =
        (case map_of extra ''help_option_names'' of
           Some v \<Rightarrow> if v \<noteq> VNone then v else inherited_help_option_names parent
         | None \<Rightarrow> inherited_help_option_names parent),
      resilient_parsing =
        (case map_of extra ''resilient_parsing'' of None \<Rightarrow> False | Some v \<Rightarrow> truthy v),
      depth = 0, close_callbacks = [], exit_stack = []\<rparr>"

text \<open>
  \<open>BaseCommand.make_context\<close>: the command's \<open>context_settings\<close> fill the keys that
  \<open>extra\<close> lacks, the context is created, and \<open>parse_args\<close> runs inside
  \<open>ctx.scope(cleanup=False)\<close>, which raises the depth by one around it.
  The method \<open>parse_args\<close> is the argument \<open>pa\<close>, which returns the context as it
  leaves it, or raises. \<open>BaseCommand.parse_args\<close> only returns its arguments and
  leaves the context as it is; no other class of \<open>core.py\<close> defines \<open>parse_args\<close>,
  so \<open>Command\<close>, \<open>MultiCommand\<close> and \<open>Group\<close> inherit it.
\<close>

definition merge_settings :: "(string \<times> pyval) list \<Rightarrow> command \<Rightarrow> (string \<times> pyval) list" where
  "merge_settings extra cmd =
     extra @ filter (\<lambda>kv. map_of extra (fst kv) = None) (context_settings cmd)"

definition make_context ::
  "(command \<Rightarrow> py_context \<Rightarrow> string list \<Rightarrow> exn + py_context) \<Rightarrow> nat \<Rightarrow> command
     \<Rightarrow> string option \<Rightarrow> string list \<Rightarrow> py_context option \<Rightarrow> (string \<times> pyval) list
     \<Rightarrow> exn + py_context" where
  "make_context pa i cmd nm argv parent extra =
     (let c = Context_init i cmd parent nm (merge_settings extra cmd)
      in case pa cmd (c\<lparr>depth := depth c + 1\<rparr>) argv of
           Inl e \<Rightarrow> Inl e
         | Inr c1 \<Rightarrow> Inr (c1\<lparr>depth := depth c1 - 1\<rparr>))"

definition BaseCommand_parse_args :: "command \<Rightarrow> py_context \<Rightarrow> string list \<Rightarrow> exn + py_context" where
  "BaseCommand_parse_args cmd c argv = Inr c"

section \<open>The completion resolver\<close>

text \<open>
  The resolver and the \<open>shell_complete\<close> methods call \<open>ctx.command.resolve_command\<close>
  and \<open>get_params\<close> on a command. No class of \<open>core.py\<close> defines either method, and
  the command classes have no \<open>__getattr__\<close>: in this source the attribute lookup
  raises \<open>AttributeError\<close>, whatever the arguments are.
\<close>

definition missing_resolve_command ::
  "py_context \<Rightarrow> string list \<Rightarrow> exn + (string option \<times> command option \<times> string list)" where
  "missing_resolve_command c argv = Inl AttributeError"

definition missing_get_params :: "command \<Rightarrow> py_context \<Rightarrow> exn + param list" where
  "missing_get_params cmd c = Inl AttributeError"

text \<open>
  \<open>_resolve_context\<close>. The root context is made with the caller's \<open>ctx_args\<close> as they
  are; every context below it is made with \<open>resilient_parsing=True\<close>. The methods
  \<open>parse_args\<close> and \<open>resolve_command\<close> are the arguments \<open>pa\<close> and \<open>rc\<close>. Whether
  the loop ends depends on what \<open>parse_args\<close> leaves in \<open>args\<close> and
  \<open>protected_args\<close>, so the function is partial: \<open>None\<close> stands for a loop that does
  not end.
\<close>

partial_function (option) resolve_context_loop ::
  "(command \<Rightarrow> py_context \<Rightarrow> string list \<Rightarrow> exn + py_context)
     \<Rightarrow> (py_context \<Rightarrow> string list \<Rightarrow> exn + (string option \<times> command option \<times> string list))
     \<Rightarrow> nat \<Rightarrow> py_context \<Rightarrow> string list \<Rightarrow> (exn + py_context) option" where
  "resolve_context_loop pa rc i c argv =
     (if argv = [] then Some (Inr c)
      else if is_MultiCommand (cmd_cls (ctx_command c)) then
        (case rc c argv of
           Inl e \<Rightarrow> Some (Inl e)
         | Inr (nm, cmd, argv1) \<Rightarrow>
             (case cmd of
                None \<Rightarrow> Some (Inr c)
              | Some sub \<Rightarrow>
                  (case make_context pa i sub nm argv1 (Some c)
                          [(''resilient_parsing'', VBool True)] of
                     Inl e \<Rightarrow> Some (Inl e)
                   | Inr sub_ctx \<Rightarrow>
                       if \<not> cmd_chain (ctx_command c)
                       then resolve_context_loop pa rc (Suc i) sub_ctx
                              (protected_args sub_ctx @ args sub_ctx)
                       else resolve_context_loop pa rc (Suc i) (c\<lparr>ctx_command := sub\<rparr>)
                              (protected_args sub_ctx @ args sub_ctx))))
      else Some (Inr c))"

definition resolve_context ::
  "(command \<Rightarrow> py_context \<Rightarrow> string list \<Rightarrow> exn + py_context)
     \<Rightarrow> (py_context \<Rightarrow> string list \<Rightarrow> exn + (string option \<times> command option \<times> string list))
     \<Rightarrow> command \<Rightarrow> (string \<times> pyval) list \<Rightarrow> string \<Rightarrow> string list
     \<Rightarrow> (exn + py_context) option" where
  "resolve_context pa rc cli ctx_args prog_name argv =
     (case make_context pa 0 cli (Some prog_name) argv None ctx_args of
        Inl e \<Rightarrow> Some (Inl e)
      | Inr c \<Rightarrow> resolve_context_loop pa rc 1 c argv)"

text \<open>
  \<open>_start_of_option\<close>: an empty value is returned as it is, which is false; for any
  other value the expression reads \<open>ctx.command.params.get\<close>, and \<open>params\<close> is a list,
  which has no \<open>get\<close>.
\<close>

definition start_of_option :: "py_context \<Rightarrow> string \<Rightarrow> exn + bool" where
  "start_of_option c v = (if v = [] then Inr False else Inl AttributeError)"

text \<open>
  \<open>_is_incomplete_option\<close>: the loop over \<open>enumerate(reversed(args))\<close> with the last
  option seen so far, then the test of that option against the parameter's names.
\<close>

fun last_option_scan ::
  "py_context \<Rightarrow> int \<Rightarrow> nat \<Rightarrow> string list \<Rightarrow> string option \<Rightarrow> exn + string option" where
  "last_option_scan c n idx [] last_option = Inr last_option"
| "last_option_scan c n idx (a # rest) last_option =
     (if int idx + 1 > n then Inr last_option
      else (case start_of_option c a of
              Inl e \<Rightarrow> Inl e
            | Inr b \<Rightarrow> last_option_scan c n (Suc idx) rest (if b then Some a else last_option)))"

definition is_incomplete_option :: "py_context \<Rightarrow> string list \<Rightarrow> param \<Rightarrow> exn + bool" where
  "is_incomplete_option c argv p =
     (if cls p \<noteq> ClsOption then Inr False
      else if is_flag p then Inr False
      else (case last_option_scan c (nargs p) 0 (rev argv) None of
              Inl e \<Rightarrow> Inl e
            | Inr None \<Rightarrow> Inr False
            | Inr (Some o1) \<Rightarrow> Inr (o1 \<in> set (opts p))))"

text \<open>\<open>_is_incomplete_argument\<close>, on the value the context holds for the parameter.\<close>

definition is_incomplete_argument :: "py_context \<Rightarrow> param \<Rightarrow> bool" where
  "is_incomplete_argument c p =
     (if cls p \<noteq> ClsArgument then False
      else (case (case name p of None \<Rightarrow> None | Some n \<Rightarrow> ctx_params c n) of
              None \<Rightarrow> True
            | Some VNone \<Rightarrow> True
            | Some (VTuple vs) \<Rightarrow> nargs p = - 1 \<or> int (length vs) < nargs p
            | Some (VList vs) \<Rightarrow> nargs p = - 1 \<or> int (length vs) < nargs p
            | Some v \<Rightarrow> False))"

text \<open>
  \<open>_resolve_incomplete\<close>: the first parameter that is an incomplete option, else the
  first that is an incomplete argument, else the command. The method \<open>get_params\<close>
  is the argument \<open>gp\<close>, called first.
\<close>

datatype completion_target = TargetParam param | TargetCommand command

fun first_incomplete_option :: "py_context \<Rightarrow> string list \<Rightarrow> param list \<Rightarrow> exn + param option" where
  "first_incomplete_option c argv [] = Inr None"
| "first_incomplete_option c argv (p # ps) =
     (case is_incomplete_option c argv p of
        Inl e \<Rightarrow> Inl e
      | Inr b \<Rightarrow> if b then Inr (Some p) else first_incomplete_option c argv ps)"

definition resolve_incomplete ::
  "(command \<Rightarrow> py_context \<Rightarrow> exn + param list) \<Rightarrow> py_context \<Rightarrow> string list
     \<Rightarrow> string \<Rightarrow> exn + (completion_target \<times> string)" where
  "resolve_incomplete gp c argv incomplete =
     (case gp (ctx_command c) c of
        Inl e \<Rightarrow> Inl e
      | Inr ps \<Rightarrow>
          (case first_incomplete_option c argv ps of
             Inl e \<Rightarrow> Inl e
           | Inr (Some p) \<Rightarrow> Inr (TargetParam p, incomplete)
           | Inr None \<Rightarrow>
               (case find (is_incomplete_argument c) ps of
                  Some p \<Rightarrow> Inr (TargetParam p, incomplete)
                | None \<Rightarrow> Inr (TargetCommand (ctx_command c), incomplete))))"

section \<open>Completions: the \<open>shell_complete\<close> methods\<close>

text \<open>A completion item made from a value alone.\<close>

definition CompletionItem :: "string \<Rightarrow> completion_item" where
  "CompletionItem v = \<lparr>ci_value = v, ci_type = ''plain'', ci_help = None, ci_info = []\<rparr>"

text \<open>
  \<open>Parameter.shell_complete\<close>: the custom function, whose strings become items and
  whose items are returned as they are, or else the completion of the parameter's
  type (module \<open>types\<close>), the argument \<open>tsc\<close>.
\<close>

definition Parameter_shell_complete ::
  "(param_type \<Rightarrow> string \<Rightarrow> completion_item list) \<Rightarrow> param \<Rightarrow> string
     \<Rightarrow> completion_item list" where
  "Parameter_shell_complete tsc p incomplete =
     (case custom_shell_complete p of
        Some f \<Rightarrow>
          (case f incomplete of
             Strings ss \<Rightarrow> map CompletionItem ss
           | Items cs \<Rightarrow> cs)
      | None \<Rightarrow> tsc (ptype p) incomplete)"

text \<open>
  The call \<open>c.start_with(incomplete)\<close> on a completion item. The class defines no
  such method, so the attribute is looked up by \<open>__getattr__\<close>, which returns
  \<open>self._info.get('start_with')\<close>. \<open>None\<close> and a value are not callable with one
  argument; a function stored under that name is called, and the truth value of
  its result decides.
\<close>

definition call_start_with :: "completion_item \<Rightarrow> string \<Rightarrow> exn + bool" where
  "call_start_with c incomplete =
     (case map_of (ci_info c) ''start_with'' of
        None \<Rightarrow> Inl TypeError
      | Some (Info v) \<Rightarrow> Inl TypeError
      | Some (InfoFun f) \<Rightarrow>
          (case f incomplete of Inl e \<Rightarrow> Inl e | Inr v \<Rightarrow> Inr (truthy v)))"

fun filter_start_with :: "string \<Rightarrow> completion_item list \<Rightarrow> exn + completion_item list" where
  "filter_start_with incomplete [] = Inr []"
| "filter_start_with incomplete (c # cs) =
     (case call_start_with c incomplete of
        Inl e \<Rightarrow> Inl e
      | Inr b \<Rightarrow>
          (case filter_start_with incomplete cs of
             Inl e \<Rightarrow> Inl e
           | Inr r \<Rightarrow> Inr (if b then c # r else r)))"

text \<open>
  The call \<open>_complete_visible_commands(self, incomplete)\<close> in
  \<open>Command.shell_complete\<close> passes the command where the function expects a context,
  and the function reads \<open>ctx.command\<close>. On a \<open>Group\<close> that is the method \<open>command\<close>,
  which is no multi command, so nothing is listed; a \<open>MultiCommand\<close> or a
  \<open>CommandCollection\<close> has no such attribute.
\<close>

definition visible_commands_of_command :: "command \<Rightarrow> exn + string list" where
  "visible_commands_of_command cmd =
     (if cmd_cls cmd = ClsGroup then Inr [] else Inl AttributeError)"

text \<open>
  \<open>Command.shell_complete\<close>: the completions of every parameter that \<open>get_params\<close>
  returns, the names of the visible subcommands of a multi command, and the filter on
  the result.
\<close>

definition Command_shell_complete ::
  "(param_type \<Rightarrow> string \<Rightarrow> completion_item list)
     \<Rightarrow> (command \<Rightarrow> py_context \<Rightarrow> exn + param list)
     \<Rightarrow> command \<Rightarrow> py_context \<Rightarrow> string \<Rightarrow> exn + completion_item list" where
  "Command_shell_complete tsc gp cmd c incomplete =
     (case gp cmd c of
        Inl e \<Rightarrow> Inl e
      | Inr ps \<Rightarrow>
          (let results = concat (map (\<lambda>p. Parameter_shell_complete tsc p incomplete) ps)
           in if is_MultiCommand (cmd_cls cmd)
              then (case visible_commands_of_command cmd of
                      Inl e \<Rightarrow> Inl e
                    | Inr names \<Rightarrow>
                        filter_start_with incomplete (results @ map CompletionItem names))
              else filter_start_with incomplete results))"

text \<open>
  \<open>MultiCommand.shell_complete\<close> adds the names that \<open>list_commands\<close> returns and that
  start with the incomplete value; \<open>MultiCommand.list_commands\<close> returns the empty
  list, and no subclass in \<open>core.py\<close> overrides it. \<open>BaseCommand.shell_complete\<close>
  tests whether \<open>ctx.parent\<close>, a context, is a multi command, and so returns nothing.
\<close>

definition list_commands :: "command \<Rightarrow> py_context \<Rightarrow> string list" where
  "list_commands cmd c = []"

definition startswith :: "string \<Rightarrow> string \<Rightarrow> bool" where
  "startswith s pre \<longleftrightarrow> take (length pre) s = pre"

definition MultiCommand_shell_complete ::
  "(param_type \<Rightarrow> string \<Rightarrow> completion_item list)
     \<Rightarrow> (command \<Rightarrow> py_context \<Rightarrow> exn + param list)
     \<Rightarrow> command \<Rightarrow> py_context \<Rightarrow> string \<Rightarrow> exn + completion_item list" where
  "MultiCommand_shell_complete tsc gp cmd c incomplete =
     (case Command_shell_complete tsc gp cmd c incomplete of
        Inl e \<Rightarrow> Inl e
      | Inr results \<Rightarrow>
          Inr (results @ map CompletionItem
                           (filter (\<lambda>n. startswith n incomplete) (list_commands cmd c))))"

definition command_shell_complete ::
  "(param_type \<Rightarrow> string \<Rightarrow> completion_item list)
     \<Rightarrow> (command \<Rightarrow> py_context \<Rightarrow> exn + param list)
     \<Rightarrow> command \<Rightarrow> py_context \<Rightarrow> string \<Rightarrow> exn + completion_item list" where
  "command_shell_complete tsc gp cmd c incomplete =
     (if cmd_cls cmd = ClsBaseCommand then Inr []
      else if cmd_cls cmd = ClsCommand then Command_shell_complete tsc gp cmd c incomplete
      else MultiCommand_shell_complete tsc gp cmd c incomplete)"

text \<open>
  \<open>ShellComplete.get_completions\<close>: the context, the object that completes, and that
  object's completions.
\<close>

definition target_shell_complete ::
  "(param_type \<Rightarrow> string \<Rightarrow> completion_item list)
     \<Rightarrow> (command \<Rightarrow> py_context \<Rightarrow> exn + param list)
     \<Rightarrow> completion_target \<Rightarrow> py_context \<Rightarrow> string \<Rightarrow> exn + completion_item list" where
  "target_shell_complete tsc gp obj c incomplete =
     (case obj of
        TargetParam p \<Rightarrow> Inr (Parameter_shell_complete tsc p incomplete)
      | TargetCommand cmd \<Rightarrow> command_shell_complete tsc gp cmd c incomplete)"

definition get_completions ::
  "(param_type \<Rightarrow> string \<Rightarrow> completion_item list)
     \<Rightarrow> (command \<Rightarrow> py_context \<Rightarrow> exn + param list)
     \<Rightarrow> (command \<Rightarrow> py_context \<Rightarrow> string list \<Rightarrow> exn + py_context)
     \<Rightarrow> (py_context \<Rightarrow> string list \<Rightarrow> exn + (string option \<times> command option \<times> string list))
     \<Rightarrow> command \<Rightarrow> (string \<times> pyval) list \<Rightarrow> string \<Rightarrow> string list \<Rightarrow> string
     \<Rightarrow> (exn + completion_item list) option" where
  "get_completions tsc gp pa rc cli ctx_args prog_name argv incomplete =
     (case resolve_context pa rc cli ctx_args prog_name argv of
        None \<Rightarrow> None
      | Some (Inl e) \<Rightarrow> Some (Inl e)
      | Some (Inr c) \<Rightarrow>
          (case resolve_incomplete gp c argv incomplete of
             Inl e \<Rightarrow> Some (Inl e)
           | Inr (obj, inc) \<Rightarrow> Some (target_shell_complete tsc gp obj c inc)))"

section \<open>The usage line: \<open>collect_usage_pieces\<close> and \<open>format_usage\<close>\<close>

text \<open>
  \<open>Command.collect_usage_pieces\<close>: the options metavar, the usage pieces of every
  parameter, and the subcommand metavar if it is not \<open>None\<close>. The attribute
  \<open>subcommand_metavar\<close> is set by \<open>MultiCommand.__init__\<close> only, so reading it on a
  plain command raises \<open>AttributeError\<close>. \<open>Command.get_params\<close> and
  \<open>Parameter.get_usage_pieces\<close> are not defined in \<open>core.py\<close>: they are the arguments
  \<open>gp\<close> and \<open>gup\<close>.
\<close>

definition collect_usage_pieces ::
  "(command \<Rightarrow> py_context \<Rightarrow> param list) \<Rightarrow> (param \<Rightarrow> py_context \<Rightarrow> string list)
     \<Rightarrow> command \<Rightarrow> py_context \<Rightarrow> exn + string option list" where
  "collect_usage_pieces gp gup cmd c =
     (let rv = options_metavar cmd # map Some (concat (map (\<lambda>p. gup p c) (gp cmd c)))
      in if \<not> is_MultiCommand (cmd_cls cmd) then Inl AttributeError
         else (case subcommand_metavar cmd of
                 None \<Rightarrow> Inr rv
               | Some m \<Rightarrow> Inr (rv @ [Some m])))"

text \<open>
  The property \<open>Context.command_path\<close> iterates over \<open>self.parents\<close>, an attribute that
  \<open>Context\<close> does not define.
\<close>

definition command_path :: "py_context \<Rightarrow> exn + string" where
  "command_path c = Inl AttributeError"

text \<open>
  \<open>Command.format_usage\<close>: the pieces, then the arguments of \<open>write_usage\<close> from left
  to right: the command path, and the pieces joined by spaces, which raises
  \<open>TypeError\<close> on a piece that is \<open>None\<close>. The result is the usage line, before
  \<open>write_usage\<close> strips its trailing blanks.
\<close>

fun join_pieces :: "string option list \<Rightarrow> exn + string" where
  "join_pieces [] = Inr []"
| "join_pieces (None # ps) = Inl TypeError"
| "join_pieces (Some s # ps) =
     (case join_pieces ps of
        Inl e \<Rightarrow> Inl e
      | Inr r \<Rightarrow> Inr (if ps = [] then s else s @ '' '' @ r))"

definition format_usage ::
  "(command \<Rightarrow> py_context \<Rightarrow> param list) \<Rightarrow> (param \<Rightarrow> py_context \<Rightarrow> string list)
     \<Rightarrow> command \<Rightarrow> py_context \<Rightarrow> exn + string" where
  "format_usage gp gup cmd c =
     (case collect_usage_pieces gp gup cmd c of
        Inl e \<Rightarrow> Inl e
      | Inr pieces \<Rightarrow>
          (case command_path c of
             Inl e \<Rightarrow> Inl e
           | Inr path \<Rightarrow>
               (case join_pieces pieces of
                  Inl e \<Rightarrow> Inl e
                | Inr joined \<Rightarrow> Inr (''Usage: '' @ path @ '' '' @ joined))))"

section \<open>Example objects\<close>

text \<open>
  An option object \<open>--name\<close> with a default and an environment variable, and a
  command \<open>prog\<close> that declares it.
\<close>

definition example_param :: param where
  "example_param = (mk_param 1 ''name'' False)\<lparr>cls := ClsOption, opts := [''--name''],
     pdefault := VStr ''D'', envvar := EnvName ''NAME''\<rparr>"

definition name_command :: command where
  "name_command = plain_command\<lparr>cmd_name := Some ''prog'', params := [example_param]\<rparr>"

text \<open>The arguments of \<open>Option(['--verbose'], is_flag=True)\<close>.\<close>

definition flag_args :: option_args where
  "flag_args =
     \<lparr>a_param_decls = [''--verbose''], a_type = None, a_required = None, a_default = None,
      a_callback = None, a_nargs = None, a_metavar = None, a_expose_value = True,
      a_is_eager = False, a_envvar = EnvNone, a_shell_complete = None,
      a_show_default = VNone, a_prompt = VBool False, a_confirmation_prompt = VBool False,
      a_prompt_required = True, a_hide_input = False, a_is_flag = Some True,
      a_flag_value = VNone, a_multiple = False, a_count = False,
      a_allow_from_autoenv = True, a_help = None, a_hidden = False, a_show_choices = True,
      a_show_envvar = False\<rparr>"



text \<open>The command \<open>prog\<close> with no parameters and no context settings.\<close>

definition prog_command :: command where
  "prog_command = plain_command\<lparr>cmd_name := Some ''prog''\<rparr>"

text \<open>A group \<open>prog\<close>, as \<open>Group.__init__\<close> leaves its attributes.\<close>

definition prog_group :: command where
  "prog_group =
     plain_command\<lparr>cmd_cls := ClsGroup, cmd_name := Some ''prog'',
       subcommand_metavar := Some ''COMMAND [ARGS]...'', no_args_is_help := True\<rparr>"

section \<open>Properties of the processing order\<close>

lemma insort_key_cong_le:
  assumes "\<And>y. y \<in> set xs \<Longrightarrow> (f x \<le> f y) = (g x \<le> g y)"
  shows "insort_key f x xs = insort_key g x xs"
  using assms by (induction xs) auto

lemma sort_key_cong_le:
  assumes "\<And>x y. x \<in> set xs \<Longrightarrow> y \<in> set xs \<Longrightarrow> (f x \<le> f y) = (g x \<le> g y)"
  shows "sort_key f xs = sort_key g xs"
  using assms
proof (induction xs)
  case Nil
  then show ?case by simp
next
  case (Cons a xs)
  have ih: "sort_key f xs = sort_key g xs"
    using Cons by simp
  have "insort_key f a (sort_key g xs) = insort_key g a (sort_key g xs)"
    by (rule insort_key_cong_le) (simp add: Cons.prems)
  with ih show ?case by simp
qed

lemma sorted_split_by:
  assumes "sorted (map f xs)"
    and "\<And>x y. x \<in> set xs \<Longrightarrow> y \<in> set xs \<Longrightarrow> P x \<Longrightarrow> \<not> P y \<Longrightarrow> f x < f y"
  shows "xs = filter P xs @ filter (\<lambda>x. \<not> P x) xs"
  using assms
proof (induction xs)
  case Nil
  then show ?case by simp
next
  case (Cons a xs)
  have ih: "xs = filter P xs @ filter (\<lambda>x. \<not> P x) xs"
    using Cons by simp
  show ?case
  proof (cases "P a")
    case True
    with ih show ?thesis by simp
  next
    case False
    have "\<not> P y" if "y \<in> set xs" for y
    proof
      assume "P y"
      then have "f y < f a" using Cons.prems(2)[of y a] that False by simp
      moreover have "f a \<le> f y" using Cons.prems(1) that by simp
      ultimately show False by simp
    qed
    then have "filter P xs = []" "filter (\<lambda>x. \<not> P x) xs = xs"
      by (simp_all add: filter_empty_conv filter_id_conv)
    with False show ?thesis by simp
  qed
qed

lemma key_eager: "is_eager p \<Longrightarrow> sort_key_of iorder p = (0, name_key p, 0)"
  by (simp add: sort_key_of_def name_key_def)

lemma key_later: "\<not> is_eager p \<Longrightarrow> sort_key_of iorder p = (1, [], first_match iorder p)"
  by (simp add: sort_key_of_def first_match_def)

lemma sorted_result_order:
  assumes ps: "ps = sort_key (sort_key_of iorder) decl"
  shows "ps = filter is_eager ps @ filter (\<lambda>p. \<not> is_eager p) ps"
    and "filter is_eager ps = sort_key name_key (filter is_eager decl)"
    and "filter (\<lambda>p. \<not> is_eager p) ps =
           sort_key (first_match iorder) (filter (\<lambda>p. \<not> is_eager p) decl)"
proof -
  have "sorted (map (sort_key_of iorder) ps)"
    unfolding ps by (rule sorted_sort_key)
  then show "ps = filter is_eager ps @ filter (\<lambda>p. \<not> is_eager p) ps"
    by (rule sorted_split_by) (simp add: key_eager key_later)
  have "filter is_eager ps = sort_key (sort_key_of iorder) (filter is_eager decl)"
    unfolding ps by (rule filter_sort)
  also have "\<dots> = sort_key name_key (filter is_eager decl)"
    by (rule sort_key_cong_le) (auto simp: key_eager)
  finally show "filter is_eager ps = sort_key name_key (filter is_eager decl)" .
  have "filter (\<lambda>p. \<not> is_eager p) ps =
          sort_key (sort_key_of iorder) (filter (\<lambda>p. \<not> is_eager p) decl)"
    unfolding ps by (rule filter_sort)
  also have "\<dots> = sort_key (first_match iorder) (filter (\<lambda>p. \<not> is_eager p) decl)"
    by (rule sort_key_cong_le) (auto simp: key_later)
  finally show "filter (\<lambda>p. \<not> is_eager p) ps =
      sort_key (first_match iorder) (filter (\<lambda>p. \<not> is_eager p) decl)" .
qed

text \<open>
  Claim C2, as the code has it: when every non-eager declared parameter was matched by
  the parser (and the eager parameters do not mix names with \<open>None\<close>),
  \<open>iter_params_for_processing\<close> returns a list in which all eager parameters come
  first, ordered by their name (equal names in declaration order), followed by all
  non-eager parameters in the order of their first match by the parser.
\<close>

theorem iter_params_for_processing_order:
  assumes matched: "\<forall>p \<in> set decl. \<not> is_eager p \<longrightarrow> index_of iorder p \<noteq> None"
    and named: "\<not> mixed_names decl"
  shows "\<exists>ps. iter_params_for_processing iorder decl = Inr ps
      \<and> ps = filter is_eager ps @ filter (\<lambda>p. \<not> is_eager p) ps
      \<and> filter is_eager ps = sort_key name_key (filter is_eager decl)
      \<and> filter (\<lambda>p. \<not> is_eager p) ps =
          sort_key (first_match iorder) (filter (\<lambda>p. \<not> is_eager p) decl)"
proof -
  have "\<not> list_ex (unmatched iorder) decl"
    using matched by (auto simp: list_ex_iff unmatched_def)
  with named have "iter_params_for_processing iorder decl
      = Inr (sort_key (sort_key_of iorder) decl)"
    by (simp add: iter_params_for_processing_def)
  then show ?thesis
    using sorted_result_order[OF refl, of iorder decl] by simp
qed

theorem iter_params_for_processing_order_witness:
  "iter_params_for_processing [mk_param 4 ''d'' False, mk_param 3 ''c'' False]
     [mk_param 2 ''b'' True, mk_param 3 ''c'' False, mk_param 1 ''a'' True,
      mk_param 4 ''d'' False]
   = Inr [mk_param 1 ''a'' True, mk_param 2 ''b'' True, mk_param 4 ''d'' False,
          mk_param 3 ''c'' False]"
proof -
  let ?io = "[mk_param 4 ''d'' False, mk_param 3 ''c'' False]"
  let ?decl = "[mk_param 2 ''b'' True, mk_param 3 ''c'' False, mk_param 1 ''a'' True,
      mk_param 4 ''d'' False]"
  have m: "\<forall>p \<in> set ?decl. \<not> is_eager p \<longrightarrow> index_of ?io p \<noteq> None"
    by (simp add: mk_param_def plain_param_def)
  have n: "\<not> mixed_names ?decl"
    by (simp add: mixed_names_def mk_param_def plain_param_def)
  from iter_params_for_processing_order[OF m n]
  obtain ps where ps: "iter_params_for_processing ?io ?decl = Inr ps"
    and split: "ps = filter is_eager ps @ filter (\<lambda>p. \<not> is_eager p) ps"
    and eager: "filter is_eager ps = sort_key name_key (filter is_eager ?decl)"
    and later: "filter (\<lambda>p. \<not> is_eager p) ps =
          sort_key (first_match ?io) (filter (\<lambda>p. \<not> is_eager p) ?decl)"
    by blast
  have "filter is_eager ps = [mk_param 1 ''a'' True, mk_param 2 ''b'' True]"
    unfolding eager by (simp add: mk_param_def plain_param_def name_key_def)
  moreover have "filter (\<lambda>p. \<not> is_eager p) ps = [mk_param 4 ''d'' False, mk_param 3 ''c'' False]"
    unfolding later by (simp add: mk_param_def plain_param_def first_match_def)
  ultimately have "ps = [mk_param 1 ''a'' True, mk_param 2 ''b'' True,
      mk_param 4 ''d'' False, mk_param 3 ''c'' False]"
    using split by simp
  with ps show ?thesis by simp
qed

text \<open>
  Claim C2, as the specification states it, fails: two eager parameters declared as
  \<open>b\<close>, then \<open>a\<close> are processed as \<open>a\<close>, then \<open>b\<close>, not in declaration order.
\<close>

theorem iter_params_for_processing_counterexample:
  "iter_params_for_processing [] [mk_param 2 ''b'' True, mk_param 1 ''a'' True]
     = Inr [mk_param 1 ''a'' True, mk_param 2 ''b'' True]
   \<and> spec_processing_order [] [mk_param 2 ''b'' True, mk_param 1 ''a'' True]
     = [mk_param 2 ''b'' True, mk_param 1 ''a'' True]
   \<and> mk_param 1 ''a'' True \<noteq> mk_param 2 ''b'' True"
  by (simp add: iter_params_for_processing_def spec_processing_order_def unmatched_def
      mixed_names_def sort_key_of_def mk_param_def plain_param_def)

text \<open>
  A declared non-eager parameter that the parser did not match makes
  \<open>invocation_order.index\<close> raise: there is no fall-back to the declaration order.
\<close>

lemma iter_params_unmatched_raises:
  assumes "p \<in> set decl" and "\<not> is_eager p" and "index_of iorder p = None"
  shows "iter_params_for_processing iorder decl = Inl ValueError"
  using assms by (auto simp: iter_params_for_processing_def list_ex_iff unmatched_def)

section \<open>Properties of the resolution of values\<close>

text \<open>
  The step of the chain that the source has: \<open>get_default\<close> returns a static default
  when the context's default map holds no value for the parameter, and the value of
  the default map when it holds one.
\<close>

lemma get_default_static:
  assumes "lookup_default c (name p) True = VNone" and "\<not> callable (pdefault p)"
  shows "get_default p (Some c) call = pdefault p"
  using assms by (simp add: get_default_def)

lemma get_default_no_default_map:
  assumes "default_map c = None" and "\<not> callable (pdefault p)"
  shows "get_default p (Some c) call = pdefault p"
  using assms by (simp add: get_default_def lookup_default_def)

lemma get_default_default_map:
  assumes "default_map c = Some m" and "name p = Some n" and "map_of m n = Some v"
    and "v \<noteq> VNone" and "\<not> callable v"
  shows "get_default p (Some c) call = v"
  using assms by (simp add: get_default_def lookup_default_def)

text \<open>
  Claim C1, evaluated on the code. \<open>make_context\<close> runs the \<open>parse_args\<close> that every
  command class inherits from \<open>BaseCommand\<close>, which returns its arguments and does
  nothing else: for every command (here without context settings), whatever its
  parameters, and every argument list the context comes back with no resolved
  parameter at all. For the command \<open>prog\<close>
  with the option \<open>--name\<close> (default \<open>D\<close>, environment variable \<open>NAME\<close>) and the
  arguments \<open>--name C\<close>, the context holds no value for \<open>name\<close>: the parameter is
  resolved neither to \<open>C\<close> nor to anything else.
\<close>

theorem make_context_resolves_nothing:
  "(\<exists>c. make_context BaseCommand_parse_args i (cmd\<lparr>context_settings := []\<rparr>) nm argv
              parent [] = Inr c
        \<and> ctx_params c = Map.empty)
   \<and> (\<exists>c. make_context BaseCommand_parse_args 0 name_command (Some ''prog'')
              [''--name'', ''C''] None [] = Inr c
        \<and> ctx_params c ''name'' = None)"
  by (simp add: make_context_def BaseCommand_parse_args_def Context_init_def Let_def)

section \<open>Properties of the scope of a context\<close>

lemma extend_registry_nil: "extend_registry [] [] w = w"
  by (simp add: extend_registry_def)

lemma extend_registry_twice:
  "extend_registry fs rs (extend_registry gs qs w) = extend_registry (gs @ fs) (qs @ rs) w"
  by (simp add: extend_registry_def)

lemma depth_extend_registry: "depth (ctx (extend_registry fs rs w)) = depth (ctx w)"
  by (simp add: extend_registry_def)

lemma ctx_exit_enter_nested:
  assumes "depth (ctx w) > 0"
  shows "ctx_exit (extend_registry fs rs (ctx_enter w)) = extend_registry fs rs w"
  using assms
  by (simp add: ctx_exit_def ctx_enter_def extend_registry_def set_depth_def push_context_def
      pop_context_def Let_def)

lemma scope_nested:
  assumes "depth (ctx w) > 0"
  shows "scope_enter w = (False, set_depth (depth (ctx w) + 1) w)"
    and "scope_exit c False (extend_registry fs rs (set_depth (depth (ctx w) + 1) w))
           = extend_registry fs rs w"
  using assms by (simp_all add: scope_enter_def scope_exit_def extend_registry_def set_depth_def)

text \<open>
  At nonzero depth a block only registers: what it leaves behind is the registry
  extended, with the depth, the stack of current contexts and the log as before.
\<close>

lemma exec_nested:
  "depth (ctx w) > 0 \<Longrightarrow>
     exec s w = extend_registry (registered_callbacks s) (registered_resources s) w"
  "depth (ctx w) > 0 \<Longrightarrow>
     exec_all ss w = extend_registry (registered_callbacks_all ss) (registered_resources_all ss) w"
proof (induction s w and ss w rule: exec_exec_all.induct)
  case (1 f w)
  then show ?case by (simp add: call_on_close_def extend_registry_def)
next
  case (2 r w)
  then show ?case by (simp add: with_resource_def extend_registry_def)
next
  case (3 body w)
  have "depth (ctx (ctx_enter w)) > 0"
    using 3(2) by (simp add: ctx_enter_def set_depth_def push_context_def)
  then show ?case using 3 by (simp add: ctx_exit_enter_nested)
next
  case (4 cleanup body w)
  have d: "depth (ctx (set_depth (depth (ctx w) + 1) w)) > 0"
    using 4(2) by (simp add: set_depth_def)
  show ?case using 4(1)[OF scope_nested(1)[OF 4(2), symmetric] d] 4(2)
    by (simp add: scope_nested)
next
  case (5 w)
  then show ?case by (simp add: extend_registry_nil)
next
  case (6 s ss w)
  then show ?case by (simp add: extend_registry_twice depth_extend_registry)
qed

lemma ctx_exit_enter_outer:
  assumes "depth (ctx w) = 0"
  shows "ctx_exit (extend_registry fs rs (ctx_enter w)) = close (extend_registry fs rs w)"
  using assms
  by (simp add: ctx_exit_def ctx_enter_def extend_registry_def set_depth_def push_context_def
      pop_context_def close_def Let_def)

lemma scope_outer:
  assumes "depth (ctx w) = 0"
  shows "scope_enter w = (True, push_context (set_depth 1 w))"
    and "scope_exit True True (extend_registry fs rs (push_context (set_depth 1 w)))
           = close (extend_registry fs rs w)"
    and "scope_exit False True (extend_registry fs rs (push_context (set_depth 1 w)))
           = extend_registry fs rs w"
  using assms
  by (simp_all add: scope_enter_def scope_exit_def extend_registry_def set_depth_def
      push_context_def pop_context_def close_def Let_def)

lemma exec_With_outer:
  assumes "depth (ctx w) = 0"
  shows "exec (With body) w
    = close (extend_registry (registered_callbacks_all body) (registered_resources_all body) w)"
proof -
  have "depth (ctx (ctx_enter w)) > 0"
    using assms by (simp add: ctx_enter_def set_depth_def push_context_def)
  then show ?thesis
    using assms by (simp add: exec_nested(2) ctx_exit_enter_outer)
qed

lemma exec_Scope_outer:
  assumes "depth (ctx w) = 0"
  shows "exec (Scope True body) w
    = close (extend_registry (registered_callbacks_all body) (registered_resources_all body) w)"
    and "exec (Scope False body) w
    = extend_registry (registered_callbacks_all body) (registered_resources_all body) w"
proof -
  have "depth (ctx (push_context (set_depth 1 w))) > 0"
    by (simp add: set_depth_def push_context_def)
  then show "exec (Scope True body) w
    = close (extend_registry (registered_callbacks_all body) (registered_resources_all body) w)"
    and "exec (Scope False body) w
    = extend_registry (registered_callbacks_all body) (registered_resources_all body) w"
    using assms by (simp_all add: exec_nested(2) scope_outer)
qed

text \<open>
  Claim C9, as the code has it. Entering and exiting the same context re-entrantly
  adjusts the depth counter, and at nonzero depth a \<open>with\<close> block or a \<open>scope\<close> block
  tears nothing down: it leaves the registrations of its body and nothing else, and
  \<open>scope\<close> there does no set-up either. A \<open>with\<close> block or a \<open>scope(cleanup=True)\<close>
  block entered at depth zero flushes the registry exactly once, on its exit, when
  the depth is back at zero: its whole effect is the registrations of its body
  followed by one \<open>close\<close>. A \<open>scope(cleanup=False)\<close> block entered at depth zero
  brings the depth back to zero without flushing.
\<close>

theorem context_scope_teardown:
  "(0 < depth (ctx w) \<longrightarrow>
      exec s w = extend_registry (registered_callbacks s) (registered_resources s) w
      \<and> depth (ctx (exec s w)) = depth (ctx w)
      \<and> teardown_log (exec s w) = teardown_log w
      \<and> scope_enter w = (False, set_depth (depth (ctx w) + 1) w)
      \<and> scope_exit cleanup False w = set_depth (depth (ctx w) - 1) w)
   \<and> (depth (ctx w0) = 0 \<longrightarrow>
      exec (With body) w0
        = close (extend_registry (registered_callbacks_all body) (registered_resources_all body) w0)
      \<and> exec (Scope True body) w0
        = close (extend_registry (registered_callbacks_all body) (registered_resources_all body) w0)
      \<and> exec (Scope False body) w0
        = extend_registry (registered_callbacks_all body) (registered_resources_all body) w0
      \<and> depth (ctx (exec (With body) w0)) = 0
      \<and> teardown_log (exec (With body) w0)
        = teardown_log w0
          @ flush_events (close_callbacks (ctx w0) @ registered_callbacks_all body)
              (exit_stack (ctx w0) @ registered_resources_all body)
      \<and> close_callbacks (ctx (exec (With body) w0)) = []
      \<and> exit_stack (ctx (exec (With body) w0)) = [])"
proof (intro conjI impI)
  assume d: "0 < depth (ctx w)"
  show "exec s w = extend_registry (registered_callbacks s) (registered_resources s) w"
    using d by (rule exec_nested(1))
  then show "depth (ctx (exec s w)) = depth (ctx w)"
    and "teardown_log (exec s w) = teardown_log w"
    by (simp_all add: extend_registry_def)
  show "scope_enter w = (False, set_depth (depth (ctx w) + 1) w)"
    using d by (rule scope_nested(1))
  show "scope_exit cleanup False w = set_depth (depth (ctx w) - 1) w"
    by (simp add: scope_exit_def)
next
  assume d: "depth (ctx w0) = 0"
  show w: "exec (With body) w0
      = close (extend_registry (registered_callbacks_all body) (registered_resources_all body) w0)"
    using d by (rule exec_With_outer)
  show "exec (Scope True body) w0
      = close (extend_registry (registered_callbacks_all body) (registered_resources_all body) w0)"
    using d by (rule exec_Scope_outer(1))
  show "exec (Scope False body) w0
      = extend_registry (registered_callbacks_all body) (registered_resources_all body) w0"
    using d by (rule exec_Scope_outer(2))
  show "depth (ctx (exec (With body) w0)) = 0"
    unfolding w using d by (simp add: close_def extend_registry_def)
  show "teardown_log (exec (With body) w0)
        = teardown_log w0
          @ flush_events (close_callbacks (ctx w0) @ registered_callbacks_all body)
              (exit_stack (ctx w0) @ registered_resources_all body)"
    unfolding w by (simp add: close_def extend_registry_def flush_events_def)
  show "close_callbacks (ctx (exec (With body) w0)) = []"
    unfolding w by (simp add: close_def)
  show "exit_stack (ctx (exec (With body) w0)) = []"
    unfolding w by (simp add: close_def)
qed

theorem context_scope_teardown_witness:
  "0 < depth (ctx (ctx_enter new_world))
   \<and> exec (Scope True [CallOnClose 5]) (ctx_enter new_world)
       = extend_registry [5] [] (ctx_enter new_world)
   \<and> depth (ctx new_world) = 0
   \<and> teardown_log
       (exec (With [CallOnClose 1, Scope True [WithResource 2, With [CallOnClose 3]]])
          new_world)
     = [Called 3, Called 1, Exited 2]"
proof -
  have n: "0 < depth (ctx (ctx_enter new_world))"
    by (simp add: ctx_enter_def set_depth_def push_context_def new_world_def
        new_context_def)
  have z: "depth (ctx new_world) = 0"
    by (simp add: new_world_def new_context_def)
  have r: "close_callbacks (ctx new_world) = []" "exit_stack (ctx new_world) = []"
    "teardown_log new_world = []"
    by (simp_all add: new_world_def new_context_def)
  note t = context_scope_teardown
      [of "ctx_enter new_world" "Scope True [CallOnClose 5]" True new_world
          "[CallOnClose 1, Scope True [WithResource 2, With [CallOnClose 3]]]"]
  have a: "exec (Scope True [CallOnClose 5]) (ctx_enter new_world)
       = extend_registry [5] [] (ctx_enter new_world)"
    using t[THEN conjunct1, rule_format, OF n, THEN conjunct1] by simp
  have "teardown_log
       (exec (With [CallOnClose 1, Scope True [WithResource 2, With [CallOnClose 3]]])
          new_world)
     = teardown_log new_world
          @ flush_events (close_callbacks (ctx new_world) @ registered_callbacks_all
                [CallOnClose 1, Scope True [WithResource 2, With [CallOnClose 3]]])
              (exit_stack (ctx new_world) @ registered_resources_all
                [CallOnClose 1, Scope True [WithResource 2, With [CallOnClose 3]]])"
    using t[THEN conjunct2, rule_format, OF z] by blast
  then have b: "teardown_log
       (exec (With [CallOnClose 1, Scope True [WithResource 2, With [CallOnClose 3]]])
          new_world)
     = [Called 3, Called 1, Exited 2]"
    by (simp add: r flush_events_def)
  from n a z b show ?thesis by blast
qed

text \<open>
  Claim C9, as the specification states it, fails: a \<open>scope(cleanup=False)\<close> block
  entered at depth zero brings the depth back to zero, and the callback registered in
  it is neither called nor removed from the registry.
\<close>

theorem context_scope_counterexample:
  "depth (ctx (exec (Scope False [CallOnClose 7]) new_world)) = 0
   \<and> teardown_log (exec (Scope False [CallOnClose 7]) new_world) = []
   \<and> close_callbacks (ctx (exec (Scope False [CallOnClose 7]) new_world)) = [7]"
  by (simp add: scope_enter_def scope_exit_def call_on_close_def set_depth_def
      push_context_def pop_context_def new_world_def new_context_def Let_def)

section \<open>Properties of the constructors\<close>

lemma Parameter_init_required:
  assumes "Parameter_init ext i c decls ty req dflt cb n mult mv expose eager env sc = Inr p0"
  shows "required p0 = req" and "pdefault p0 = dflt" and "multiple p0 = mult"
  using assms
  by (auto simp: Parameter_init_def Let_def split: sum.splits option.splits if_splits prod.splits)

lemma Option_init_Inr:
  assumes "Option_init ext i a = Inr p"
  obtains p0 pt where
    "Parameter_init ext i ClsOption (a_param_decls a) (a_type a)
             (case a_required a of None \<Rightarrow> False | Some r \<Rightarrow> r)
             (case a_default a of None \<Rightarrow> VNone | Some d \<Rightarrow> d)
             (a_callback a) (a_nargs a) (a_multiple a) (a_metavar a) (a_expose_value a)
             (a_is_eager a) (a_envvar a) (a_shell_complete a) = Inr p0"
    and "p = option_attrs ext a p0 pt"
    and "option_checks p = None"
  using assms unfolding Option_init_def
  by (auto split: sum.splits option.splits)

lemma option_checks_count:
  assumes "option_checks p = None" and "is_flag p"
  shows "\<not> count_opt p"
  using assms by (auto simp: option_checks_def split: if_splits)

lemma option_attrs_fields:
  "is_flag (option_attrs ext a p0 pt) = option_is_flag a pt p0"
  "count_opt (option_attrs ext a p0 pt) = a_count a"
  "flag_value (option_attrs ext a p0 pt)
     = option_flag_value a (option_flag_default a (option_is_flag a pt p0) p0)"
  "pdefault (option_attrs ext a p0 pt)
     = (if a_count a \<and> a_default a = None then VInt 0
        else option_flag_default a (option_is_flag a pt p0) p0)"
  "required (option_attrs ext a p0 pt) = required p0"
  "name (option_attrs ext a p0 pt) = name p0"
  by (simp_all add: option_attrs_def Let_def)

text \<open>
  What the body of \<open>Option.__init__\<close> does once \<open>Parameter.__init__\<close> has returned: a
  flag that is not required and got no \<open>default\<close> has the default \<open>False\<close> (the
  empty tuple with \<open>multiple\<close>), and without a \<open>flag_value\<close> its \<open>flag_value\<close> is
  \<open>True\<close>.
\<close>

lemma option_attrs_flag_defaults:
  assumes init: "Option_init ext i a = Inr p"
    and flag: "is_flag p"
    and opt: "\<not> required p"
    and nodefault: "a_default a = None"
  shows "pdefault p = (if a_multiple a then VTuple [] else VBool False)"
    and "a_flag_value a = VNone \<longrightarrow> flag_value p = VBool True"
proof -
  from init obtain p0 pt where p: "p = option_attrs ext a p0 pt"
    and chk: "option_checks p = None"
    by (rule Option_init_Inr)
  have nocount: "\<not> a_count a"
    using option_checks_count[OF chk flag] by (simp add: p option_attrs_fields)
  have f: "option_is_flag a pt p0" and r: "\<not> required p0"
    using flag opt by (simp_all add: p option_attrs_fields)
  show "pdefault p = (if a_multiple a then VTuple [] else VBool False)"
    using nocount f r nodefault
    by (simp add: p option_attrs_fields option_flag_default_def)
  show "a_flag_value a = VNone \<longrightarrow> flag_value p = VBool True"
    using f r nodefault
    by (simp add: p option_attrs_fields option_flag_default_def option_flag_value_def)
qed

text \<open>
  Every constructor starts with \<open>Parameter.__init__\<close>, whose first statement looks up
  \<open>self._parse_decls\<close>.
\<close>

lemma Parameter_init_raises_AttributeError:
  "Parameter_init (ext\<lparr>parse_decls := missing_parse_decls\<rparr>) i c decls ty req dflt cb n mult
     mv expose eager env sc = Inl AttributeError"
  by (simp add: Parameter_init_def missing_parse_decls_def)

lemma Argument_init_raises_AttributeError:
  "Argument_init (ext\<lparr>parse_decls := missing_parse_decls\<rparr>) i a False = Inl AttributeError"
  by (simp add: Argument_init_def Parameter_init_def missing_parse_decls_def)

text \<open>
  Claim C10, evaluated on the code. With the \<open>_parse_decls\<close> of this source, which no
  class defines, \<open>Option.__init__\<close> raises \<open>AttributeError\<close> for all arguments, before
  it sets a default or a \<open>flag_value\<close>: no flag option is constructed, so none has
  the default \<open>False\<close> and the \<open>flag_value\<close> \<open>True\<close>. That holds for
  \<open>Option(['--verbose'], is_flag=True)\<close> in particular.
\<close>

theorem Option_init_raises_AttributeError:
  "Option_init (ext\<lparr>parse_decls := missing_parse_decls\<rparr>) i a = Inl AttributeError
   \<and> Option_init (ext\<lparr>parse_decls := missing_parse_decls\<rparr>) 1 flag_args
       = Inl AttributeError"
  by (simp add: Option_init_def Parameter_init_def missing_parse_decls_def)

section \<open>Properties of the matching of positional arguments\<close>

text \<open>
  Claim C3. For a required argument with \<open>nargs = -1\<close> followed by two required
  arguments with \<open>nargs = 1\<close>, the positional tokens \<open>a, b, c, d, e\<close> are matched so
  that exactly the two trailing tokens are reserved for the fixed arguments and the
  unbounded argument gets \<open>a, b, c\<close>.
\<close>

theorem unbounded_argument_reserves_trailing:
  "reserved_after [(1, True), (1, True)] = 2
   \<and> unpack_args [a, b, c, d, e] [(- 1, True), (1, True), (1, True)]
       = ([[a, b, c], [d], [e]], [])"
  by simp

section \<open>Properties of multi commands in chain mode\<close>

text \<open>
  A multi command constructed in chain mode whose own parameters contain an optional
  argument is rejected by the constructor with \<open>RuntimeError\<close>.
\<close>

lemma MultiCommand_init_rejects_optional_argument:
  assumes "list_ex is_optional_argument ps"
  shows "MultiCommand_init c n iwc nah sm True settings cb (Some ps) om aho hid
           = Inl RuntimeError"
  using assms by (simp add: MultiCommand_init_def Command_init_def)

text \<open>
  \<open>Group.add_command\<close> with the \<open>_check_multicommand\<close> of this source, which is
  defined nowhere: every command that has a name raises \<open>NameError\<close>, and none is
  entered.
\<close>

lemma add_command_raises_NameError:
  "add_command missing_check_multicommand g (cmd\<lparr>cmd_name := Some n\<rparr>) nm = Inl NameError"
  by (simp add: add_command_def missing_check_multicommand_def split: option.splits)


section \<open>Properties of the entry point\<close>

text \<open>
  Claim C6, evaluated on the code. In standalone mode, once \<open>make_context\<close> has
  returned a context, \<open>main\<close> ends with a \<open>TypeError\<close> that no handler catches,
  whatever the command's callback would do: the call of \<open>_main_shell_completion\<close>
  passes one positional argument too many. The process does not end with exit code 0
  after a successful run, and an exit request of the callback is never reached.
\<close>

theorem main_success_raises_TypeError:
  "main True (Inr c) invoked completion = (Raises TypeError, [])"
  by (simp add: main_def main_body_def main_shell_completion_call_def)

text \<open>
  What the handlers of \<open>main\<close> do with an exception that \<open>make_context\<close> raises: a
  reported error ends the process with its exit code; an \<open>Abort\<close> prints \<open>Aborted!\<close>
  and ends it with 1; for an interrupt or the end of input, \<open>echo(file=sys.stderr)\<close>
  raises \<open>TypeError\<close>, so \<open>Abort\<close> is never raised and the \<open>TypeError\<close> leaves
  \<open>main\<close>; an exit request is not handled.
\<close>

lemma main_reported_error:
  "main True (Inl (ClickException code)) invoked completion = (SystemExit code, [Show code])"
  by (simp add: main_def main_body_def)

lemma main_abort:
  "main True (Inl Abort) invoked completion = (SystemExit 1, [Echo ''Aborted!''])"
  by (simp add: main_def main_body_def handle_abort_def echo_def)

lemma main_interrupt_raises_TypeError:
  "main standalone_mode (Inl KeyboardInterrupt) invoked completion = (Raises TypeError, [])"
  "main standalone_mode (Inl EOFError) invoked completion = (Raises TypeError, [])"
  by (simp_all add: main_def main_body_def handle_interrupt_def echo_def)

lemma main_exit_request_not_handled:
  "main True (Inl (Exit code)) invoked completion = (Raises (Exit code), [])"
  by (simp add: main_def main_body_def)

section \<open>Properties of the completion resolver\<close>

text \<open>
  A context that \<open>_resolve_context\<close> makes for a subcommand is in resilient-parsing
  mode; the root context is in that mode only if the caller's arguments or the
  command's context settings say so.
\<close>

lemma make_context_resilient:
  "make_context BaseCommand_parse_args i cmd nm argv parent
      [(''resilient_parsing'', VBool True)] = Inr c \<Longrightarrow> resilient_parsing c"
  by (auto simp: make_context_def BaseCommand_parse_args_def Context_init_def
      merge_settings_def Let_def)

lemma root_context_not_resilient:
  assumes "map_of ctx_args ''resilient_parsing'' = None"
    and "map_of (context_settings cli) ''resilient_parsing'' = None"
  shows "\<not> resilient_parsing (Context_init 0 cli None nm (merge_settings ctx_args cli))"
proof -
  have "map_of (filter (\<lambda>kv. map_of ctx_args (fst kv) = None) (context_settings cli))
          ''resilient_parsing'' = None"
    using assms(2) by (induction "context_settings cli") (auto simp: map_of_eq_None_iff)
  then show ?thesis
    using assms(1) by (simp add: Context_init_def merge_settings_def map_add_def)
qed

text \<open>
  Claim C4, evaluated on the code. For the command \<open>prog\<close> without context settings,
  completed after any list of arguments, \<open>_resolve_context\<close> returns the root context
  that \<open>make_context\<close> built from the caller's arguments, and that context is not in
  resilient-parsing mode. The same holds for the group \<open>prog\<close> completed after no
  argument.
\<close>

theorem resolve_context_root_not_resilient:
  "(\<exists>c. resolve_context BaseCommand_parse_args rc prog_command [] ''prog'' argv
          = Some (Inr c)
        \<and> ctx_command c = prog_command \<and> \<not> resilient_parsing c)
   \<and> (\<exists>c. resolve_context BaseCommand_parse_args rc prog_group [] ''prog'' []
          = Some (Inr c)
        \<and> ctx_command c = prog_group \<and> \<not> resilient_parsing c)"
  by (simp add: resolve_context_def resolve_context_loop.simps make_context_def
      BaseCommand_parse_args_def Context_init_def merge_settings_def prog_command_def
      prog_group_def plain_command_def is_MultiCommand_def Let_def)

text \<open>
  With the methods as this source has them, the resolver either returns a context
  or raises \<open>AttributeError\<close> at \<open>resolve_command\<close>.
\<close>

lemma resolve_context_cases:
  assumes "context_settings cli = []"
  shows "resolve_context BaseCommand_parse_args missing_resolve_command cli [] prog argv
     = Some (Inl AttributeError)
   \<or> (\<exists>c. resolve_context BaseCommand_parse_args missing_resolve_command cli [] prog
              argv = Some (Inr c))"
  by (simp add: resolve_context_def resolve_context_loop.simps make_context_def
      BaseCommand_parse_args_def missing_resolve_command_def Let_def)

lemma resolve_incomplete_raises:
  "resolve_incomplete missing_get_params c argv inc = Inl AttributeError"
  by (simp add: resolve_incomplete_def missing_get_params_def)

lemma get_completions_raises:
  assumes "context_settings cli = []"
  shows "get_completions tsc missing_get_params BaseCommand_parse_args
     missing_resolve_command cli [] prog argv inc = Some (Inl AttributeError)"
  using resolve_context_cases[OF assms, of prog argv]
  by (auto simp: get_completions_def resolve_incomplete_raises)

text \<open>
  Claim C5, evaluated on the code. With the methods as this source has them,
  \<open>get_completions\<close> raises \<open>AttributeError\<close> for every command (here without
  context settings), every list of complete arguments and every incomplete value:
  at \<open>resolve_command\<close> when a multi command is followed by an argument, and at
  \<open>get_params\<close> otherwise. So it does for the line \<open>prog sub --fla\<close>, and \<open>--flag\<close> is
  not returned. The \<open>shell_complete\<close> method of a command returns no candidate
  either: it returns the empty list for a \<open>BaseCommand\<close> and raises \<open>AttributeError\<close>
  at \<open>get_params\<close> for every other class.
\<close>

theorem completion_never_offers_option_names:
  "get_completions tsc missing_get_params BaseCommand_parse_args missing_resolve_command
     (cli\<lparr>context_settings := []\<rparr>) [] prog argv inc = Some (Inl AttributeError)
   \<and> get_completions tsc missing_get_params BaseCommand_parse_args missing_resolve_command
       prog_group [] ''prog'' [''sub''] ''--fla'' = Some (Inl AttributeError)
   \<and> command_shell_complete tsc missing_get_params cmd c inc
       \<in> {Inr [], Inl AttributeError}"
proof (intro conjI)
  show "get_completions tsc missing_get_params BaseCommand_parse_args
      missing_resolve_command (cli\<lparr>context_settings := []\<rparr>) [] prog argv inc
      = Some (Inl AttributeError)"
    by (rule get_completions_raises) simp
  show "get_completions tsc missing_get_params BaseCommand_parse_args
      missing_resolve_command prog_group [] ''prog'' [''sub''] ''--fla''
      = Some (Inl AttributeError)"
    by (rule get_completions_raises) (simp add: prog_group_def plain_command_def)
  show "command_shell_complete tsc missing_get_params cmd c inc
      \<in> {Inr [], Inl AttributeError}"
    by (simp add: command_shell_complete_def MultiCommand_shell_complete_def
        Command_shell_complete_def missing_get_params_def)
qed

section \<open>Properties of the usage line\<close>

text \<open>
  Claim C8, evaluated on the code. Formatting the usage line raises \<open>AttributeError\<close>
  for every command and context: a plain command has no \<open>subcommand_metavar\<close>, which
  \<open>collect_usage_pieces\<close> reads, and for a multi command the command path cannot be
  computed. The help page starts with the usage line, so it cannot be formatted
  either.
\<close>

theorem format_usage_raises:
  "format_usage gp gup cmd c = Inl AttributeError
   \<and> collect_usage_pieces gp gup (cmd\<lparr>cmd_cls := ClsCommand\<rparr>) c = Inl AttributeError"
  by (simp add: format_usage_def collect_usage_pieces_def command_path_def
      is_MultiCommand_def Let_def split: sum.splits option.splits)

end
